theory Spec2Isabelle
  imports Complex_Main "HOL-Library.Sublist"
begin

section \<open>Text\<close>

text \<open>
  A Python \<open>str\<close> is a sequence of Unicode code points, so text is a list of naturals;
  \<open>len\<close> is \<open>length\<close> and the substring test \<open>k in t\<close> is \<open>sublist k t\<close>.
  \<open>u\<close> embeds an ASCII literal; the other code points of the source's literals are
  written as numbers.
\<close>

type_synonym ustr = "nat list"

definition u :: "string \<Rightarrow> ustr" where
  "u s = map of_char s"

text \<open>The characters that \<open>str.isspace\<close>, \<open>str.strip\<close> and the pattern \<open>\s\<close> accept.\<close>

definition py_isspace :: "nat \<Rightarrow> bool" where
  "py_isspace c \<longleftrightarrow>
     (9 \<le> c \<and> c \<le> 13) \<or> (28 \<le> c \<and> c \<le> 32) \<or> c = 133 \<or> c = 160 \<or> c = 5760 \<or>
     (8192 \<le> c \<and> c \<le> 8202) \<or> c = 8232 \<or> c = 8233 \<or> c = 8239 \<or> c = 8287 \<or> c = 12288"

text \<open>
  The functions of the Python runtime that the program calls on text and that depend on
  the Unicode character database: \<open>str.lower\<close>, \<open>unicodedata.normalize('NFD', _)\<close> and
  the test \<open>unicodedata.category(c) == 'Mn'\<close>. They are parameters of the model.
\<close>

record unicode_lib =
  str_lower :: "ustr \<Rightarrow> ustr"
  nfd :: "ustr \<Rightarrow> ustr"
  is_Mn :: "nat \<Rightarrow> bool"

subsection \<open>An instance of the library on Basic Latin and Latin-1\<close>

text \<open>
  The canonical decompositions of the code points below 256 and of the two spaces
  U+2000 and U+2001 (whose canonical decompositions are U+2002 and U+2003), the
  lower-case mapping of the code points below 256, and the combining diacritical marks
  U+0300 to U+036F as the nonspacing marks. Other code points are left alone. It agrees
  with the runtime on text whose code points are below 256, which covers every keyword
  of the program, and on the whitespace of the class \<open>\s\<close>.
\<close>

definition latin1_decomposition :: "(nat \<times> nat list) list" where
  "latin1_decomposition =
    [(192, [65, 768]), (193, [65, 769]), (194, [65, 770]), (195, [65, 771]), (196, [65, 776]),
     (197, [65, 778]), (199, [67, 807]), (200, [69, 768]), (201, [69, 769]), (202, [69, 770]),
     (203, [69, 776]), (204, [73, 768]), (205, [73, 769]), (206, [73, 770]), (207, [73, 776]),
     (209, [78, 771]), (210, [79, 768]), (211, [79, 769]), (212, [79, 770]), (213, [79, 771]),
     (214, [79, 776]), (217, [85, 768]), (218, [85, 769]), (219, [85, 770]), (220, [85, 776]),
     (221, [89, 769]), (224, [97, 768]), (225, [97, 769]), (226, [97, 770]), (227, [97, 771]),
     (228, [97, 776]), (229, [97, 778]), (231, [99, 807]), (232, [101, 768]), (233, [101, 769]),
     (234, [101, 770]), (235, [101, 776]), (236, [105, 768]), (237, [105, 769]), (238, [105, 770]),
     (239, [105, 776]), (241, [110, 771]), (242, [111, 768]), (243, [111, 769]), (244, [111, 770]),
     (245, [111, 771]), (246, [111, 776]), (249, [117, 768]), (250, [117, 769]), (251, [117, 770]),
     (252, [117, 776]), (253, [121, 769]), (255, [121, 776])]"

definition latin1_decompose :: "nat \<Rightarrow> nat list" where
  "latin1_decompose c =
     (if 192 \<le> c \<and> c \<le> 255
      then (case map_of latin1_decomposition c of None \<Rightarrow> [c] | Some d \<Rightarrow> d)
      else if c = 8192 then [8194]
      else if c = 8193 then [8195]
      else [c])"

definition latin1_lower :: "nat \<Rightarrow> nat" where
  "latin1_lower c =
     (if (65 \<le> c \<and> c \<le> 90) \<or> (192 \<le> c \<and> c \<le> 222 \<and> c \<noteq> 215) then c + 32 else c)"

definition latin1 :: unicode_lib where
  "latin1 = \<lparr> str_lower = map latin1_lower,
              nfd = (\<lambda>s. concat (map latin1_decompose s)),
              is_Mn = (\<lambda>c. 768 \<le> c \<and> c \<le> 879) \<rparr>"

section \<open>The text normalizer (ClinicaChatbot.normalize\_text)\<close>

text \<open>The character class \<open>[a-z0-9\s]\<close> of the pattern in \<open>normalize_text\<close>.\<close>

definition normalized_char :: "nat \<Rightarrow> bool" where
  "normalized_char c \<longleftrightarrow> (97 \<le> c \<and> c \<le> 122) \<or> (48 \<le> c \<and> c \<le> 57) \<or> py_isspace c"

text \<open>
  \<open>normalize_text\<close>: NFD, drop the characters of category Mn, lower-case, then
  \<open>re.sub(r'[^a-z0-9\s]', '', text)\<close>, which deletes every character outside the class.
\<close>

definition normalize_text :: "unicode_lib \<Rightarrow> ustr \<Rightarrow> ustr" where
  "normalize_text L text =
     filter normalized_char (str_lower L (filter (\<lambda>c. \<not> is_Mn L c) (nfd L text)))"

text \<open>A text matches \<open>^[a-z0-9\s]*$\<close> exactly when all its characters are in the class.\<close>

definition matches_normalized :: "ustr \<Rightarrow> bool" where
  "matches_normalized s = list_all normalized_char s"

text \<open>Two adjacent whitespace characters somewhere in the text.\<close>

fun has_whitespace_run :: "ustr \<Rightarrow> bool" where
  "has_whitespace_run (a # b # cs) = ((py_isspace a \<and> py_isspace b) \<or> has_whitespace_run (b # cs))"
| "has_whitespace_run _ = False"

text \<open>
  The facts about the runtime's Unicode functions on which idempotence rests. Each is a
  property of \<open>str.lower\<close>, of NFD or of the category table alone:
  NFD of the empty text is empty;
  lower-casing leaves a text over \<open>[a-z0-9\s]\<close> alone;
  no character of the class is a nonspacing mark;
  no text in NFD form contains U+2000 or U+2001 (they decompose to U+2002 and U+2003);
  lower-casing does not produce U+2000 or U+2001 where there was none;
  NFD leaves alone a text over the class without U+2000 and U+2001 (these two are the
  only characters of the class with a canonical decomposition).
\<close>

definition unicode_facts :: "unicode_lib \<Rightarrow> bool" where
  "unicode_facts L \<longleftrightarrow>
     nfd L [] = [] \<and>
     (\<forall>s. list_all normalized_char s \<longrightarrow> str_lower L s = s) \<and>
     (\<forall>c. normalized_char c \<longrightarrow> \<not> is_Mn L c) \<and>
     (\<forall>s. 8192 \<notin> set (nfd L s) \<and> 8193 \<notin> set (nfd L s)) \<and>
     (\<forall>s. 8192 \<in> set (str_lower L s) \<longrightarrow> 8192 \<in> set s) \<and>
     (\<forall>s. 8193 \<in> set (str_lower L s) \<longrightarrow> 8193 \<in> set s) \<and>
     (\<forall>s. list_all normalized_char s \<and> 8192 \<notin> set s \<and> 8193 \<notin> set s \<longrightarrow> nfd L s = s)"

section \<open>Python values\<close>

text \<open>
  The values that cross the program's dynamically typed interfaces (a decoded JSON body,
  the sentiment dictionary, a provider's return value). Floats are modelled by the
  rationals they denote; a dictionary is an association list in insertion order, a
  tuple is a list.
\<close>

datatype pyval =
    PyNone
  | PyBool bool
  | PyNum rat
  | PyStr ustr
  | PyList "pyval list"
  | PyDict "(ustr \<times> pyval) list"

type_synonym pydict = "(ustr \<times> pyval) list"

text \<open>Truth value of a Python object, as \<open>if x\<close> and \<open>not x\<close> take it.\<close>

fun py_truthy :: "pyval \<Rightarrow> bool" where
  "py_truthy PyNone = False"
| "py_truthy (PyBool b) = b"
| "py_truthy (PyNum q) = (q \<noteq> 0)"
| "py_truthy (PyStr s) = (s \<noteq> [])"
| "py_truthy (PyList xs) = (xs \<noteq> [])"
| "py_truthy (PyDict kvs) = (kvs \<noteq> [])"

text \<open>\<open>d.get(k, default)\<close>.\<close>

definition dict_get :: "pydict \<Rightarrow> ustr \<Rightarrow> pyval \<Rightarrow> pyval" where
  "dict_get d k dflt = (case map_of d k of None \<Rightarrow> dflt | Some v \<Rightarrow> v)"

text \<open>\<open>v < r\<close> for a float \<open>r\<close>: defined on numbers, a TypeError (\<open>None\<close>) otherwise.\<close>

fun py_less :: "pyval \<Rightarrow> rat \<Rightarrow> bool option" where
  "py_less (PyNum q) r = Some (q < r)"
| "py_less (PyBool b) r = Some ((if b then 1 else 0) < r)"
| "py_less _ r = None"

text \<open>\<open>str.strip()\<close>: leading and trailing whitespace removed.\<close>

definition py_strip :: "ustr \<Rightarrow> ustr" where
  "py_strip s = rev (dropWhile py_isspace (rev (dropWhile py_isspace s)))"

text \<open>
  \<open>round(x, 3)\<close>: to the nearest multiple of one thousandth, a tie going to the even one.
\<close>

definition round_half_even :: "rat \<Rightarrow> int" where
  "round_half_even x =
     (let f = \<lfloor>x\<rfloor>; d = x - of_int f
      in if d < 1 / 2 then f else if 1 / 2 < d then f + 1 else if even f then f else f + 1)"

definition py_round3 :: "rat \<Rightarrow> rat" where
  "py_round3 x = of_int (round_half_even (x * 1000)) / 1000"

section \<open>The sentiment analyzer (sentiment\_analysis.py)\<close>

text \<open>Source line 7 of sentiment_analysis.py.\<close>

definition emergency_keywords :: "ustr list" where
  "emergency_keywords =
    [u ''suic'' @ [237] @ u ''dio'', u ''suicidio'', u ''matar'', u ''morrer'', u ''morte'',
     u ''acabar com tudo'', u ''n'' @ [227] @ u ''o aguento mais'', u ''nao aguento mais'',
     u ''desespero'', u ''desesperad'', u ''overdose'', u ''intoxica'' @ [231, 227] @ u ''o'',
     u ''intoxicacao'', u ''crise'', u ''emerg'' @ [234] @ u ''ncia'', u ''emergencia'',
     u ''socorro'', u ''ajuda urgente'', u ''urgente'', u ''agora'', u ''imediatamente'']"

text \<open>Source line 14 of sentiment_analysis.py.\<close>

definition positive_keywords :: "ustr list" where
  "positive_keywords =
    [u ''obrigado'', u ''obrigada'', u ''agradeco'', u ''agrade'' @ [231] @ u ''o'',
     u ''grato'', u ''grata'', u ''ajudou'', u ''melhor'', u ''bem'', u ''feliz'',
     u ''esperan'' @ [231] @ u ''a'', u ''esperanca'', u ''otimista'', u ''confiante'',
     u ''motivado'', u ''motivada'', u ''positivo'', u ''positiva'']"

text \<open>Source line 20 of sentiment_analysis.py.\<close>

definition negative_keywords :: "ustr list" where
  "negative_keywords =
    [u ''triste'', u ''deprimido'', u ''deprimida'', u ''ansioso'', u ''ansiosa'',
     u ''preocupado'', u ''preocupada'', u ''medo'', u ''receio'', u ''nervoso'', u ''nervosa'',
     u ''estressado'', u ''estressada'', u ''cansado'', u ''cansada'', u ''frustrado'',
     u ''frustrada'']"


text \<open>
  The third-party functions the analyzer calls: TextBlob's \<open>sentiment\<close> (polarity and
  subjectivity of a text) and langdetect's \<open>detect\<close> (\<open>None\<close> when it raises).
\<close>

record nlp_lib =
  textblob_sentiment :: "ustr \<Rightarrow> rat \<times> rat"
  langdetect :: "ustr \<Rightarrow> ustr option"

subsection \<open>clean\_text\<close>

text \<open>
  The character alternatives of the URL pattern:
  \<open>[a-zA-Z]\<close>, \<open>[0-9]\<close>, \<open>[$-_@.&+]\<close> (a range from \<open>$\<close> to \<open>_\<close>, then four
  characters) and \<open>[!*\(\),]\<close>. The last alternative, a percent sign and two
  hexadecimal digits, consists of characters of the earlier ones, so the greedy
  repetition matches the longest run of these characters.
\<close>

definition url_char :: "nat \<Rightarrow> bool" where
  "url_char c \<longleftrightarrow>
     (97 \<le> c \<and> c \<le> 122) \<or> (65 \<le> c \<and> c \<le> 90) \<or> (48 \<le> c \<and> c \<le> 57) \<or>
     (36 \<le> c \<and> c \<le> 95) \<or> c = 64 \<or> c = 46 \<or> c = 38 \<or> c = 43 \<or>
     c = 33 \<or> c = 42 \<or> c = 40 \<or> c = 41 \<or> c = 44"

text \<open>
  A match of \<open>http[s]?://(?:...)+\<close> at the start of the text: the text after the match,
  or \<open>None\<close> when the pattern does not match here.
\<close>

definition url_match :: "ustr \<Rightarrow> ustr option" where
  "url_match s =
     (if prefix (u ''http'') s then
        (let r = drop 4 s;
             body = (if prefix (u ''s://'') r then Some (drop 4 r)
                     else if prefix (u ''://'') r then Some (drop 3 r)
                     else None)
         in case body of
              None \<Rightarrow> None
            | Some t \<Rightarrow> if takeWhile url_char t = [] then None else Some (dropWhile url_char t))
      else None)"

lemma url_match_shorter: "url_match s = Some r \<Longrightarrow> length r < length s"
proof -
  have d: "\<And>t. length (dropWhile url_char t) \<le> length t" by (rule length_dropWhile_le)
  assume m: "url_match s = Some r"
  then have p: "prefix (u ''http'') s" by (auto simp: url_match_def split: if_splits)
  then have l: "4 \<le> length s" by (auto simp: u_def dest: prefix_length_le)
  from m p obtain t where t: "r = dropWhile url_char t" "t = drop 4 (drop 4 s) \<or> t = drop 3 (drop 4 s)"
    by (auto simp: url_match_def Let_def split: if_splits option.splits)
  have "length r \<le> length t" using t(1) d by simp
  moreover have "length t < length s" using t(2) l by auto
  ultimately show ?thesis by simp
qed

text \<open>\<open>re.sub(URL, '', text)\<close>: every match, found from left to right, is deleted.\<close>

function sub_urls :: "ustr \<Rightarrow> ustr" where
  "sub_urls [] = []"
| "sub_urls (c # cs) =
     (case url_match (c # cs) of Some rest \<Rightarrow> sub_urls rest | None \<Rightarrow> c # sub_urls cs)"
  by pat_completeness auto
termination
  by (relation "measure length") (auto dest: url_match_shorter)

text \<open>
  \<open>re.sub(r'[!]{2,}', '!', text)\<close> and the same for \<open>?\<close>: a run of two or more
  copies of the character becomes one copy.
\<close>

function sub_repeated :: "nat \<Rightarrow> ustr \<Rightarrow> ustr" where
  "sub_repeated c [] = []"
| "sub_repeated c (x # xs) =
     (if x = c \<and> takeWhile (\<lambda>y. y = c) xs \<noteq> []
      then c # sub_repeated c (dropWhile (\<lambda>y. y = c) xs)
      else x # sub_repeated c xs)"
  by pat_completeness auto
termination
  by (relation "measure (\<lambda>(c, s). length s)") (auto simp: le_imp_less_Suc length_dropWhile_le)

text \<open>\<open>re.sub(r'[.]{3,}', '...', text)\<close>: a run of three or more dots becomes three.\<close>

function sub_dots :: "ustr \<Rightarrow> ustr" where
  "sub_dots [] = []"
| "sub_dots (x # xs) =
     (if x = 46 \<and> 2 \<le> length (takeWhile (\<lambda>y. y = 46) xs)
      then 46 # 46 # 46 # sub_dots (dropWhile (\<lambda>y. y = 46) xs)
      else x # sub_dots xs)"
  by pat_completeness auto
termination
  by (relation "measure length") (auto simp: le_imp_less_Suc length_dropWhile_le)

text \<open>\<open>re.sub(r'\s+', ' ', text)\<close>: a run of whitespace becomes one space.\<close>

function sub_spaces :: "ustr \<Rightarrow> ustr" where
  "sub_spaces [] = []"
| "sub_spaces (x # xs) =
     (if py_isspace x then 32 # sub_spaces (dropWhile py_isspace xs) else x # sub_spaces xs)"
  by pat_completeness auto
termination
  by (relation "measure length") (auto simp: le_imp_less_Suc length_dropWhile_le)

definition clean_text :: "ustr \<Rightarrow> ustr" where
  "clean_text text =
     py_strip (sub_spaces (sub_dots (sub_repeated 63 (sub_repeated 33 (sub_urls text)))))"

subsection \<open>analyze\_sentiment\<close>

definition detect_language :: "nlp_lib \<Rightarrow> ustr \<Rightarrow> ustr" where
  "detect_language N text = (case langdetect N text of Some l \<Rightarrow> l | None \<Rightarrow> u ''pt'')"

definition emergency_count :: "ustr \<Rightarrow> nat" where
  "emergency_count text = length (filter (\<lambda>keyword. sublist keyword text) emergency_keywords)"

definition check_emergency_level :: "ustr \<Rightarrow> ustr" where
  "check_emergency_level text =
     (if 2 \<le> emergency_count text then u ''high''
      else if emergency_count text = 1 then u ''medium''
      else u ''low'')"

definition find_keywords :: "ustr \<Rightarrow> pyval list" where
  "find_keywords text =
     map (\<lambda>keyword. PyList [PyStr (u ''emergency''), PyStr keyword])
         (filter (\<lambda>keyword. sublist keyword text) emergency_keywords) @
     map (\<lambda>keyword. PyList [PyStr (u ''positive''), PyStr keyword])
         (filter (\<lambda>keyword. sublist keyword text) positive_keywords) @
     map (\<lambda>keyword. PyList [PyStr (u ''negative''), PyStr keyword])
         (filter (\<lambda>keyword. sublist keyword text) negative_keywords)"

text \<open>
  The adjustment of sentiment and confidence by the keywords (the \<open>if\<close>/\<open>elif\<close> chain
  after the emergency level is known).
\<close>

definition adjust_sentiment :: "ustr \<Rightarrow> ustr \<Rightarrow> ustr \<Rightarrow> rat \<Rightarrow> ustr \<times> rat" where
  "adjust_sentiment emergency_level lowered sentiment confidence =
     (if emergency_level = u ''high'' then (u ''emergency'', max confidence (8 / 10))
      else if list_ex (\<lambda>keyword. sublist keyword lowered) positive_keywords then
        (if sentiment \<noteq> u ''emergency'' then (u ''positive'', max confidence (6 / 10))
         else (sentiment, confidence))
      else if list_ex (\<lambda>keyword. sublist keyword lowered) negative_keywords then
        (if sentiment \<noteq> u ''emergency'' then (u ''negative'', max confidence (6 / 10))
         else (sentiment, confidence))
      else (sentiment, confidence))"

definition analyze_sentiment :: "unicode_lib \<Rightarrow> nlp_lib \<Rightarrow> ustr \<Rightarrow> pydict" where
  "analyze_sentiment L N text =
     (if text = [] \<or> length (py_strip text) < 3 then
        [(u ''sentiment'', PyStr (u ''neutral'')),
         (u ''polarity'', PyNum 0),
         (u ''subjectivity'', PyNum 0),
         (u ''confidence'', PyNum 0),
         (u ''language'', PyStr (u ''unknown'')),
         (u ''emergency_level'', PyStr (u ''low'')),
         (u ''keywords_found'', PyList [])]
      else
        (let cleaned_text = clean_text text;
             language = detect_language N cleaned_text;
             polarity = fst (textblob_sentiment N cleaned_text);
             subjectivity = snd (textblob_sentiment N cleaned_text);
             sentiment = (if 1 / 10 < polarity then u ''positive''
                          else if polarity < - (1 / 10) then u ''negative''
                          else u ''neutral'');
             confidence = min (\<bar>polarity\<bar> + subjectivity) 1;
             emergency_level = check_emergency_level (str_lower L cleaned_text);
             keywords_found = find_keywords (str_lower L cleaned_text);
             adjusted = adjust_sentiment emergency_level (str_lower L cleaned_text) sentiment confidence
         in [(u ''sentiment'', PyStr (fst adjusted)),
             (u ''polarity'', PyNum (py_round3 polarity)),
             (u ''subjectivity'', PyNum (py_round3 subjectivity)),
             (u ''confidence'', PyNum (py_round3 (snd adjusted))),
             (u ''language'', PyStr language),
             (u ''emergency_level'', PyStr emergency_level),
             (u ''keywords_found'', PyList keywords_found)]))"

section \<open>Urgency detection (ClinicaChatbot.detect\_urgency\_and\_create\_ticket)\<close>

text \<open>Source line 592.\<close>

definition high_priority_keywords :: "ustr list" where
  "high_priority_keywords =
    [u ''emerg'' @ [234] @ u ''ncia'', u ''urgente'', u ''socorro'', u ''ajuda'', u ''crise'',
     u ''overdose'', u ''suic'' @ [237] @ u ''dio'', u ''morte'', u ''morrer'', u ''desespero'',
     u ''n'' @ [227] @ u ''o aguento'', u ''vou me matar'', u ''acabar com tudo'']"

text \<open>Source line 599.\<close>

definition medium_priority_keywords :: "ustr list" where
  "medium_priority_keywords =
    [u ''interna'' @ [231, 227] @ u ''o'', u ''internar'', u ''tratamento'',
     u ''depend'' @ [234] @ u ''ncia'', u ''v'' @ [237] @ u ''cio'', u ''drogas'',
     [225] @ u ''lcool'', u ''bebida'', u ''coca'' @ [237] @ u ''na'', u ''crack'',
     u ''maconha'', u ''rem'' @ [233] @ u ''dio'', u ''medicamento'']"


text \<open>The dictionary handed to \<open>crm_integration.sync_lead\<close>.\<close>

record lead_data =
  lead_session_id :: "ustr option"
  lead_message :: ustr
  lead_urgency :: ustr
  lead_source :: ustr
  lead_sentiment :: "pydict option"

text \<open>
  The priority after the keyword pass and the sentiment adjustment; \<open>None\<close> when the
  comparison of the polarity raises (the outer \<open>except\<close> then ends the function).
\<close>

definition urgency_priority :: "unicode_lib \<Rightarrow> ustr \<Rightarrow> pydict option \<Rightarrow> ustr option" where
  "urgency_priority L user_message sentiment_result =
     (let user_input_lower = str_lower L user_message;
          priority =
            (if list_ex (\<lambda>keyword. sublist keyword user_input_lower) high_priority_keywords
             then u ''alta''
             else if list_ex (\<lambda>keyword. sublist keyword user_input_lower) medium_priority_keywords
             then u ''m'' @ [233] @ u ''dia''
             else u ''baixa'')
      in case sentiment_result of
           None \<Rightarrow> Some priority
         | Some d \<Rightarrow>
             if d = [] then Some priority
             else
               (case py_less (dict_get d (u ''polarity'') (PyNum 0)) (- (5 / 10)) of
                  None \<Rightarrow> None
                | Some very_negative \<Rightarrow>
                    if very_negative \<and>
                       py_truthy (dict_get d (u ''emergency_keywords'') PyNone)
                    then Some (u ''alta'')
                    else
                      (case py_less (dict_get d (u ''polarity'') (PyNum 0)) (- (3 / 10)) of
                         None \<Rightarrow> None
                       | Some negative \<Rightarrow>
                           if negative then
                             (if priority = u ''baixa'' then Some (u ''m'' @ [233] @ u ''dia'')
                              else Some priority)
                           else Some priority)))"

text \<open>
  \<open>detect_urgency_and_create_ticket\<close> returns nothing; its effect is the lead it hands to
  the CRM (whose failure is swallowed). The model returns that lead, or \<open>None\<close> when an
  exception ended the function before the CRM call.
\<close>

definition detect_urgency_and_create_ticket ::
  "unicode_lib \<Rightarrow> ustr \<Rightarrow> ustr option \<Rightarrow> pydict option \<Rightarrow> lead_data option" where
  "detect_urgency_and_create_ticket L user_message session_id sentiment_result =
     (case urgency_priority L user_message sentiment_result of
        None \<Rightarrow> None
      | Some priority \<Rightarrow>
          Some \<lparr> lead_session_id = session_id,
                 lead_message = user_message,
                 lead_urgency = priority,
                 lead_source = u ''chatbot'',
                 lead_sentiment = sentiment_result \<rparr>)"

section \<open>The keyword classifier (contains\_keywords, get\_response\_fallback)\<close>

definition contains_keywords :: "unicode_lib \<Rightarrow> ustr \<Rightarrow> ustr list \<Rightarrow> bool" where
  "contains_keywords L text keywords =
     list_ex (\<lambda>keyword. sublist (normalize_text L keyword) (normalize_text L text)) keywords"

text \<open>Source line 272.\<close>

definition fallback_tratamento_keywords :: "ustr list" where
  "fallback_tratamento_keywords =
    [u ''tratamento'', u ''terapia'', u ''ajuda'', u ''tratar'', u ''curar'', u ''cura'',
     u ''recuperacao'', u ''recupera'' @ [231, 227] @ u ''o'', u ''reabilitacao'',
     u ''reabilita'' @ [231, 227] @ u ''o'', u ''dependencia'',
     u ''depend'' @ [234] @ u ''ncia'', u ''vicio'', u ''v'' @ [237] @ u ''cio'', u ''drogas'',
     u ''alcool'', [225] @ u ''lcool'', u ''medicamento'', u ''remedio'',
     u ''rem'' @ [233] @ u ''dio'', u ''psicologia'', u ''psiquiatria'', u ''medico'',
     u ''m'' @ [233] @ u ''dico'', u ''doutor'', u ''doutora'', u ''terapeuta'']"

text \<open>Source line 280.\<close>

definition fallback_internacao_keywords :: "ustr list" where
  "fallback_internacao_keywords =
    [u ''internacao'', u ''interna'' @ [231, 227] @ u ''o'', u ''internar'',
     u ''como funciona'', u ''funcionamento'', u ''processo'', u ''procedimento'',
     u ''admissao'', u ''admiss'' @ [227] @ u ''o'', u ''entrada'', u ''ingresso'',
     u ''clinica'', u ''cl'' @ [237] @ u ''nica'', u ''hospital'', u ''instituicao'',
     u ''institui'' @ [231, 227] @ u ''o'', u ''centro'', u ''unidade'', u ''estabelecimento'',
     u ''local'', u ''onde'', u ''endereco'', u ''endere'' @ [231] @ u ''o'']"

text \<open>Source line 288.\<close>

definition fallback_convenio_keywords :: "ustr list" where
  "fallback_convenio_keywords =
    [u ''convenio'', u ''conv'' @ [234] @ u ''nio'', u ''plano'', u ''preco'',
     u ''pre'' @ [231] @ u ''o'', u ''valor'', u ''custo'', u ''quanto custa'', u ''pagamento'',
     u ''pagar'', u ''dinheiro'', u ''financeiro'', u ''orcamento'',
     u ''or'' @ [231] @ u ''amento'', u ''seguro'', u ''saude'', u ''sa'' @ [250] @ u ''de'',
     u ''unimed'', u ''bradesco'', u ''sulamerica'', u ''amil'', u ''particular'', u ''sus'',
     u ''gratuito'', u ''gratis'', u ''gr'' @ [225] @ u ''tis'']"

text \<open>Source line 296.\<close>

definition fallback_emergencia_keywords :: "ustr list" where
  "fallback_emergencia_keywords =
    [u ''emergencia'', u ''emerg'' @ [234] @ u ''ncia'', u ''urgente'', u ''urgencia'',
     u ''urg'' @ [234] @ u ''ncia'', u ''crise'', u ''socorro'', u ''ajuda imediata'',
     u ''agora'', u ''rapido'', u ''r'' @ [225] @ u ''pido'', u ''ja'', u ''j'' @ [225],
     u ''desespero'', u ''desesperad'', u ''suicidio'', u ''suic'' @ [237] @ u ''dio'',
     u ''morte'', u ''morrer'', u ''overdose'', u ''intoxicacao'',
     u ''intoxica'' @ [231, 227] @ u ''o'', u ''24 horas'', u ''24h'', u ''plantao'',
     u ''plant'' @ [227] @ u ''o'']"

text \<open>Source line 304.\<close>

definition fallback_dependencia_keywords :: "ustr list" where
  "fallback_dependencia_keywords =
    [u ''dependente'', u ''viciado'', u ''adicto'', u ''usuario'',
     u ''usu'' @ [225] @ u ''rio'', u ''consumidor'', u ''crack'', u ''cocaina'',
     u ''coca'' @ [237] @ u ''na'', u ''maconha'', u ''cannabis'', u ''heroina'',
     u ''hero'' @ [237] @ u ''na'', u ''ecstasy'', u ''lsd'', u ''anfetamina'',
     u ''metanfetamina'', u ''opioides'', u ''morfina'', u ''codeina'',
     u ''code'' @ [237] @ u ''na'', u ''tramadol'', u ''rivotril'', u ''clonazepam'',
     u ''alprazolam'']"

text \<open>Source line 312.\<close>

definition fallback_identificacao_keywords :: "ustr list" where
  "fallback_identificacao_keywords =
    [u ''identificar'', u ''identifico'', u ''reconhecer'', u ''perceber'', u ''notar'',
     u ''descobrir'', u ''sinais'', u ''sintomas'', u ''comportamento'', u ''mudancas'',
     u ''mudan'' @ [231] @ u ''as'', u ''indicios'', u ''ind'' @ [237] @ u ''cios'',
     u ''como saber'', u ''como sei'', u ''como descobrir'', u ''como perceber'',
     u ''como identificar'', u ''pessoa viciada'', u ''alguem viciado'',
     u ''algu'' @ [233] @ u ''m viciado'', u ''familiar viciado'', u ''caracteristicas'',
     u ''caracter'' @ [237] @ u ''sticas'', u ''manifestacoes'',
     u ''manifesta'' @ [231, 245] @ u ''es'', u ''evidencias'',
     u ''evid'' @ [234] @ u ''ncias'', u ''pistas'', u ''alertas'', u ''avisos'']"

text \<open>Source line 322.\<close>

definition fallback_contato_keywords :: "ustr list" where
  "fallback_contato_keywords =
    [u ''telefone'', u ''fone'', u ''numero'', u ''n'' @ [250] @ u ''mero'', u ''contato'',
     u ''ligar'', u ''falar'', u ''comunicar'', u ''entrar em contato'', u ''como falar'',
     u ''como ligar'', u ''telefone da clinica'', u ''telefone da cl'' @ [237] @ u ''nica'',
     u ''numero da clinica'', u ''n'' @ [250] @ u ''mero da cl'' @ [237] @ u ''nica'',
     u ''contato da clinica'', u ''contato da cl'' @ [237] @ u ''nica'',
     u ''como entrar em contato'', u ''whatsapp'', u ''celular'', u ''fixo'', u ''ramal'',
     u ''atendimento'', u ''recepcao'', u ''recep'' @ [231, 227] @ u ''o'']"


text \<open>Source line 332.\<close>

definition template_identificacao :: ustr where
  "template_identificacao =
     [128269] @ u '' '' @ [42, 42] @ u ''COMO IDENTIFICAR UMA PESSOA VICIADA:'' @ [42, 42, 10] @
     u ''            '' @ [10, 9888, 65039] @ u '' '' @ [42, 42] @ u ''Sinais F'' @ [237] @
     u ''sicos:'' @ [42, 42, 10, 8226] @ u '' Mudan'' @ [231] @ u ''as bruscas de peso '' @ [40] @
     u ''perda ou ganho'' @ [41, 10, 8226] @ u '' Olhos vermelhos, pupilas dilatadas ou contra'' @
     [237] @ u ''das'' @ [10, 8226] @ u '' Tremores nas m'' @ [227] @ u ''os'' @ [10, 8226] @
     u '' Falta de higiene pessoal'' @ [10, 8226] @ u '' Marcas de agulhas '' @ [40] @
     u ''no caso de drogas injet'' @ [225] @ u ''veis'' @ [41, 10, 8226] @
     u '' Odor estranho na roupa ou h'' @ [225] @ u ''lito'' @ [10, 8226] @ u '' Sonol'' @ [234] @
     u ''ncia excessiva ou ins'' @ [244] @ u ''nia'' @ [10, 10, 129504] @ u '' '' @ [42, 42] @
     u ''Sinais Comportamentais:'' @ [42, 42, 10, 8226] @ u '' Mudan'' @ [231] @ u ''as dr'' @ [225] @
     u ''sticas de humor'' @ [10, 8226] @ u '' Isolamento social e familiar'' @ [10, 8226] @
     u '' Mentiras frequentes'' @ [10, 8226] @ u '' Roubo de dinheiro ou objetos'' @ [10, 8226] @
     u '' Abandono de responsabilidades'' @ [10, 8226] @
     u '' Perda de interesse em atividades antes prazerosas'' @ [10, 8226] @
     u '' Agressividade ou irritabilidade'' @ [10, 10, 128188] @ u '' '' @ [42, 42] @
     u ''Sinais Sociais:'' @ [42, 42, 10, 8226] @ u '' Problemas no trabalho ou escola'' @ [10, 8226] @
     u '' Mudan'' @ [231] @ u ''a de c'' @ [237] @ u ''rculo de amizades'' @ [10, 8226] @
     u '' Problemas financeiros inexplic'' @ [225] @ u ''veis'' @ [10, 8226] @
     u '' Conflitos familiares constantes'' @ [10, 8226] @ u '' Neglig'' @ [234] @
     u ''ncia com filhos ou fam'' @ [237] @ u ''lia'' @ [10, 10, 128680] @ u '' '' @ [42, 42] @
     u ''IMPORTANTE:'' @ [42, 42, 10] @ u ''Se voc'' @ [234] @
     u '' identificou esses sinais em algu'' @ [233] @ u ''m pr'' @ [243] @
     u ''ximo, procure ajuda profissional imediatamente.'' @ [10, 10, 128222] @ u '' '' @ [42, 42] @
     u ''Nossa cl'' @ [237] @ u ''nica oferece:'' @ [42, 42, 10, 8226] @ u '' Avalia'' @ [231, 227] @
     u ''o especializada'' @ [10, 8226] @ u '' Orienta'' @ [231, 227] @ u ''o familiar'' @ [10, 8226] @
     u '' Interven'' @ [231, 227] @ u ''o profissional'' @ [10, 8226] @
     u '' Tratamento personalizado'' @ [10, 10] @ u ''Ligue: '' @ [40] @ u ''11'' @ [41] @
     u '' 99999-9999''"

text \<open>Source line 375.\<close>

definition template_internacao :: ustr where
  "template_internacao =
     u ''Nossa interna'' @ [231, 227] @ u ''o funciona da seguinte forma:'' @ [10] @
     u ''            '' @ [10, 128203] @ u '' '' @ [42, 42] @ u ''Processo de Admiss'' @ [227] @
     u ''o:'' @ [42, 42, 10, 8226] @ u '' Avalia'' @ [231, 227] @ u ''o m'' @ [233] @
     u ''dica inicial'' @ [10, 8226] @ u '' Entrevista com psic'' @ [243] @ u ''logo'' @ [10, 8226] @
     u '' Plano de tratamento personalizado'' @ [10, 8226] @ u '' Documenta'' @ [231, 227] @
     u ''o necess'' @ [225] @ u ''ria'' @ [10, 10, 127973] @ u '' '' @ [42, 42] @
     u ''Durante a Interna'' @ [231, 227] @ u ''o:'' @ [42, 42, 10, 8226] @
     u '' Acompanhamento 24h por equipe especializada'' @ [10, 8226] @ u '' Atividades terap'' @
     [234] @ u ''uticas di'' @ [225] @ u ''rias'' @ [10, 8226] @ u '' Consultas m'' @ [233] @
     u ''dicas regulares'' @ [10, 8226] @ u '' Suporte familiar'' @ [10, 8226] @
     u '' Atividades recreativas'' @ [10, 10, 128205] @ u '' '' @ [42, 42] @ u ''Tipos de Interna'' @
     [231, 227] @ u ''o:'' @ [42, 42, 10, 8226] @ u '' Volunt'' @ [225] @ u ''ria '' @ [40] @
     u ''com consentimento'' @ [41, 10, 8226] @ u '' Involunt'' @ [225] @ u ''ria '' @ [40] @
     u ''solicita'' @ [231, 227] @ u ''o familiar'' @ [41, 10, 8226] @ u '' Compuls'' @ [243] @
     u ''ria '' @ [40] @ u ''determina'' @ [231, 227] @ u ''o judicial'' @ [41, 10, 10] @
     u ''Para mais detalhes, ligue: '' @ [40] @ u ''11'' @ [41] @ u '' 99999-9999''"

text \<open>Source line 398.\<close>

definition template_convenio :: ustr where
  "template_convenio =
     [128176] @ u '' '' @ [42, 42] @ u ''Informa'' @ [231, 245] @ u ''es sobre Conv'' @ [234] @
     u ''nios e Valores:'' @ [42, 42, 10] @ u ''            '' @ [10, 127973] @ u '' '' @ [42, 42] @
     u ''Conv'' @ [234] @ u ''nios Aceitos:'' @ [42, 42, 10, 8226] @ u '' Unimed'' @ [10, 8226] @
     u '' Bradesco Sa'' @ [250] @ u ''de'' @ [10, 8226] @ u '' SulAm'' @ [233] @ u ''rica'' @
     [10, 8226] @ u '' Amil'' @ [10, 8226] @ u '' Golden Cross'' @ [10, 8226] @ u '' Outros conv'' @
     [234] @ u ''nios m'' @ [233] @ u ''dicos'' @ [10, 10, 128179] @ u '' '' @ [42, 42] @
     u ''Formas de Pagamento:'' @ [42, 42, 10, 8226] @ u '' Conv'' @ [234] @ u ''nio m'' @ [233] @
     u ''dico'' @ [10, 8226] @ u '' Particular'' @ [10, 8226] @ u '' Parcelamento facilitado'' @
     [10, 8226] @ u '' Cart'' @ [227] @ u ''o de cr'' @ [233] @ u ''dito/d'' @ [233] @ u ''bito'' @
     [10, 10, 128203] @ u '' '' @ [42, 42] @ u ''Para Verificar:'' @ [42, 42, 10, 8226] @
     u '' Cobertura do seu plano'' @ [10, 8226] @ u '' Valores atualizados'' @ [10, 8226] @
     u '' Documenta'' @ [231, 227] @ u ''o necess'' @ [225] @ u ''ria'' @ [10, 8226] @
     u '' Autoriza'' @ [231, 227] @ u ''o do conv'' @ [234] @ u ''nio'' @ [10, 10] @
     u ''Ligue para verificar: '' @ [40] @ u ''11'' @ [41] @ u '' 99999-9999''"

text \<open>Source line 423.\<close>

definition template_emergencia :: ustr where
  "template_emergencia =
     [128680] @ u '' '' @ [42, 42] @ u ''ATENDIMENTO DE EMERG'' @ [202] @ u ''NCIA 24H'' @ [42, 42] @
     u '' '' @ [128680, 10] @ u ''            '' @ [10, 9888, 65039] @ u '' '' @ [42, 42] @
     u ''Se voc'' @ [234] @ u '' ou algu'' @ [233] @ u ''m pr'' @ [243] @ u ''ximo est'' @ [225] @
     u '' em crise:'' @ [42, 42, 10] @ u ''            '' @ [10, 128222] @ u '' '' @ [42, 42] @
     u ''LIGUE IMEDIATAMENTE:'' @ [42, 42, 10, 8226] @ u '' Cl'' @ [237] @ u ''nica: '' @ [40] @
     u ''11'' @ [41] @ u '' 99999-9999'' @ [10, 8226] @ u '' SAMU: 192'' @ [10, 8226] @
     u '' Bombeiros: 193'' @ [10, 8226] @ u '' CVV: 188 '' @ [40] @ u ''preven'' @ [231, 227] @
     u ''o suic'' @ [237] @ u ''dio'' @ [41, 10, 10, 127973] @ u '' '' @ [42, 42] @
     u ''Nossos Servi'' @ [231] @ u ''os de Emerg'' @ [234] @ u ''ncia:'' @ [42, 42, 10, 8226] @
     u '' Atendimento 24h dispon'' @ [237] @ u ''vel'' @ [10, 8226] @
     u '' Equipe especializada em crises'' @ [10, 8226] @ u '' Interna'' @ [231, 227] @
     u ''o de urg'' @ [234] @ u ''ncia'' @ [10, 8226] @ u '' Suporte imediato para fam'' @ [237] @
     u ''lias'' @ [10, 8226] @ u '' Remo'' @ [231, 227] @ u ''o especializada'' @ [10, 10, 128153] @
     u '' '' @ [42, 42] @ u ''N'' @ [227] @ u ''o hesite em buscar ajuda!'' @ [42, 42, 10] @
     u ''Estamos aqui para apoiar voc'' @ [234] @ u '' neste momento dif'' @ [237] @ u ''cil.''"

text \<open>Source line 444.\<close>

definition template_contato :: ustr where
  "template_contato =
     [128222] @ u '' '' @ [42, 42] @ u ''INFORMA'' @ [199, 213] @ u ''ES DE CONTATO DA CL'' @ [205] @
     u ''NICA:'' @ [42, 42, 10] @ u ''            '' @ [10, 127973] @ u '' '' @ [42, 42] @
     u ''Nossa Cl'' @ [237] @ u ''nica de Reabilita'' @ [231, 227] @ u ''o'' @
     [42, 42, 10, 10, 128241] @ u '' '' @ [42, 42] @ u ''Telefone Principal:'' @ [42, 42, 10, 8226] @
     u '' '' @ [40] @ u ''11'' @ [41] @ u '' 99999-9999'' @ [10, 10, 128336] @ u '' '' @ [42, 42] @
     u ''Hor'' @ [225] @ u ''rios de Atendimento:'' @ [42, 42, 10, 8226] @
     u '' Segunda a Sexta: 8h '' @ [224] @ u ''s 18h'' @ [10, 8226] @ u '' S'' @ [225] @
     u ''bados: 8h '' @ [224] @ u ''s 12h'' @ [10, 8226] @ u '' Emerg'' @ [234] @
     u ''ncias: 24h por dia'' @ [10, 10, 128203] @ u '' '' @ [42, 42] @
     u ''Nosso atendimento oferece:'' @ [42, 42, 10, 8226] @ u '' Informa'' @ [231, 245] @
     u ''es sobre tratamentos'' @ [10, 8226] @ u '' Agendamento de avalia'' @ [231, 245] @ u ''es'' @
     [10, 8226] @ u '' Orienta'' @ [231, 227] @ u ''o para fam'' @ [237] @ u ''lias'' @ [10, 8226] @
     u '' Suporte em crises'' @ [10, 8226] @ u '' Esclarecimentos sobre conv'' @ [234] @ u ''nios'' @
     [10, 10, 128172] @ u '' '' @ [42, 42] @ u ''Voc'' @ [234] @ u '' tamb'' @ [233] @ u ''m pode:'' @
     [42, 42, 10, 8226] @ u '' Continuar conversando aqui comigo'' @ [10, 8226] @
     u '' Fazer perguntas sobre nossos servi'' @ [231] @ u ''os'' @ [10, 8226] @
     u '' Solicitar informa'' @ [231, 245] @ u ''es espec'' @ [237] @ u ''ficas'' @ [10, 10, 128222] @
     u '' '' @ [42, 42] @ u ''Ligue agora: '' @ [40] @ u ''11'' @ [41] @ u '' 99999-9999'' @
     [42, 42, 10] @ u ''Estamos prontos para ajudar voc'' @ [234] @ u ''!''"

text \<open>Source line 472.\<close>

definition template_greeting :: ustr where
  "template_greeting =
     [128075] @ u '' '' @ [42, 42] @ u ''Ol'' @ [225] @ u ''! Sou o assistente virtual da Cl'' @
     [237] @ u ''nica Espa'' @ [231] @ u ''o Vida.'' @ [42, 42, 10] @ u ''            '' @
     [10, 127973] @ u '' '' @ [42, 42] @ u ''Posso ajudar com informa'' @ [231, 245] @
     u ''es sobre:'' @ [42, 42, 10, 8226] @ u '' Tratamentos dispon'' @ [237] @ u ''veis'' @
     [10, 8226] @ u '' Processo de interna'' @ [231, 227] @ u ''o'' @ [10, 8226] @ u '' Conv'' @
     [234] @ u ''nios e valores'' @ [10, 8226] @ u '' Atendimento de emerg'' @ [234] @ u ''ncia'' @
     [10, 8226] @ u '' Tipos de depend'' @ [234] @ u ''ncia'' @ [10, 8226] @ u '' Suporte familiar'' @
     [10, 10, 128172] @ u '' '' @ [42, 42] @ u ''Exemplos do que voc'' @ [234] @
     u '' pode perguntar:'' @ [42, 42, 10, 8226] @ u '' '' @ [34] @ u ''Como funciona o tratamento?'' @
     [34, 10, 8226] @ u '' '' @ [34] @ u ''Quais conv'' @ [234] @ u ''nios voc'' @ [234] @
     u ''s aceitam?'' @ [34, 10, 8226] @ u '' '' @ [34] @ u ''Preciso de ajuda urgente'' @
     [34, 10, 8226] @ u '' '' @ [34] @ u ''Como internar algu'' @ [233] @ u ''m?'' @
     [34, 10, 10, 128222] @ u '' '' @ [42, 42] @ u ''Para atendimento personalizado:'' @ [42, 42, 10] @
     u ''Ligue: '' @ [40] @ u ''11'' @ [41] @ u '' 99999-9999'' @ [10, 10, 10067] @ u '' '' @
     [42, 42] @ u ''Como posso ajudar voc'' @ [234] @ u '' hoje?'' @ [42, 42]"


text \<open>
  \<open>get_response_fallback\<close>: the first category whose keywords occur decides; \<open>None\<close> is
  the value returned for the treatment and dependency keywords.
\<close>

definition get_response_fallback :: "unicode_lib \<Rightarrow> ustr \<Rightarrow> ustr option" where
  "get_response_fallback L user_message =
     (if contains_keywords L user_message fallback_identificacao_keywords
      then Some template_identificacao
      else if contains_keywords L user_message
                (fallback_tratamento_keywords @ fallback_dependencia_keywords)
      then None
      else if contains_keywords L user_message fallback_internacao_keywords
      then Some template_internacao
      else if contains_keywords L user_message fallback_convenio_keywords
      then Some template_convenio
      else if contains_keywords L user_message fallback_emergencia_keywords
      then Some template_emergencia
      else if contains_keywords L user_message fallback_contato_keywords
      then Some template_contato
      else Some template_greeting)"

section \<open>The provider backends\<close>

text \<open>Source line 78.\<close>

definition system_prompt :: ustr where
  "system_prompt =
     [10] @ u ''        Voc'' @ [234] @ u '' '' @ [233] @
     u '' um assistente virtual especializado em atendimento para uma'' @ u '' cl'' @ [237] @
     u ''nica de reabilita'' @ [231, 227] @ u ''o de dependentes qu'' @ [237] @ u ''micos e sa'' @
     [250] @ u ''de mental.'' @ [10] @ u ''        '' @ [10] @ u ''        NOME DA CLINICA:'' @ [10] @
     u ''        CLINICA ESPA'' @ [199] @ u ''O VIDA'' @ [10, 10] @ u ''        INFORMA'' @
     [199, 213] @ u ''ES DA CL'' @ [205] @ u ''NICA:'' @ [10] @
     u ''        - Especializada em tratamento de depend'' @ [234] @ u ''ncia qu'' @ [237] @
     u ''mica e transtornos de sa'' @ [250] @ u ''de mental'' @ [10] @
     u ''        - Metodologias: 12 Passos, Terapia Cognitivo-Comport'' @ u ''amental '' @ [40] @
     u ''TCC'' @ [41] @ u '', Modelo Minnesota'' @ [10] @
     u ''        - Equipe multidisciplinar: psiquiatras, psic'' @ [243] @
     u ''logos, terapeutas, enfermeiros, assistentes sociais'' @ [10] @
     u ''        - Tratamentos para: '' @ [225] @ u ''lcool, coca'' @ [237] @
     u ''na, crack, maconha, medicamentos, jogos patol'' @ [243] @ u ''gicos'' @ [10] @
     u ''        - Modalidades: interna'' @ [231, 227] @ u ''o volunt'' @ [225] @
     u ''ria e involunt'' @ [225] @ u ''ria, ambulatorial'' @ [10] @
     u ''        - Atendimento 24 horas para emerg'' @ [234] @ u ''ncias'' @ [10] @
     u ''        - Acomoda'' @ [231, 245] @ u ''es masculinas'' @ [10] @ u ''        - Aceita conv'' @
     [234] @ u ''nios m'' @ [233] @ u ''dicos'' @ [10] @ u ''        - E-mail: flaviopcampos'' @ [64] @
     u ''gmail.com'' @ [10] @ u ''        - Telefone: '' @ [40] @ u ''27'' @ [41] @ u '' 999637447'' @
     [10] @ u ''        - Hor'' @ [225] @ u ''rios: Segunda a Sexta 8h '' @ [224] @ u ''s 18h, S'' @
     [225] @ u ''bados 8h '' @ [224] @ u ''s 12h, Emerg'' @ [234] @ u ''ncias 24h'' @ [10] @
     u ''        '' @ [10] @ u ''        ABORDAGENS TERAP'' @ [202] @ u ''UTICAS:'' @ [10] @
     u ''        - Terapia Cognitivo-Comportamental '' @ [40] @ u ''TCC'' @ [41] @
     u '': foca em pensamentos, cren'' @ [231] @ u ''as e comportamentos disfuncionais'' @ [10] @
     u ''        - Metodologia 12 Passos: baseada na filosofia de Alc'' @ u ''o'' @ [243] @
     u ''licos An'' @ [244] @ u ''nimos e Narc'' @ [243] @ u ''ticos An'' @ [244] @ u ''nimos'' @
     [10] @ u ''        - Modelo Minnesota: abordagem biopsicossocial com fo'' @ u ''co na abstin'' @
     [234] @ u ''ncia total'' @ [10] @ u ''        - Preven'' @ [231, 227] @ u ''o de Reca'' @ [237] @
     u ''da: estrat'' @ [233] @ u ''gias para evitar retorno ao uso'' @ [10] @
     u ''        - Terapia de Grupo: compartilhamento de experi'' @ [234] @ u ''ncias e apoio m'' @
     [250] @ u ''tuo'' @ [10] @ u ''        - Terapia Individual: atendimento personalizado'' @ [10] @
     u ''        - Terapia Familiar: envolvimento da fam'' @ [237] @
     u ''lia no processo de recupera'' @ [231, 227] @ u ''o'' @ [10] @
     u ''        - Atividades ocupacionais e f'' @ [237] @ u ''sicas'' @ [10] @ u ''        '' @ [10] @
     u ''        SINTOMAS DA DEPEND'' @ [202] @ u ''NCIA QU'' @ [205] @ u ''MICA:'' @ [10] @
     u ''        - Compuls'' @ [227] @ u ''o: desejo incontrol'' @ [225] @ u ''vel de usar subst'' @
     [226] @ u ''ncias'' @ [10] @ u ''        - Obsess'' @ [227] @
     u ''o: pensamentos constantes sobre drogas/'' @ [225] @ u ''lcool'' @ [10] @
     u ''        - Perda de controle: incapacidade de parar ou contro'' @ u ''lar o uso'' @ [10] @
     u ''        - Toler'' @ [226] @ u ''ncia: necessidade de doses maiores'' @ [10] @
     u ''        - S'' @ [237] @ u ''ndrome de abstin'' @ [234] @ u ''ncia: sintomas f'' @ [237] @
     u ''sicos e psicol'' @ [243] @ u ''gicos ao parar'' @ [10] @ u ''        - Neglig'' @ [234] @
     u ''ncia de responsabilidades'' @ [10] @
     u ''        - Problemas familiares, sociais e profissionais'' @ [10] @
     u ''        - Isolamento social'' @ [10] @ u ''        - Mudan'' @ [231] @
     u ''as de humor e comportamento'' @ [10] @ u ''        '' @ [10] @ u ''        INSTRU'' @
     [199, 213] @ u ''ES DE ATENDIMENTO:'' @ [10] @ u ''        1. Seja emp'' @ [225] @
     u ''tico, acolhedor e n'' @ [227] @ u ''o julgue'' @ [10] @ u ''        2. Ofere'' @ [231] @
     u ''a esperan'' @ [231] @ u ''a e motiva'' @ [231, 227] @ u ''o para o tratamento'' @ [10] @
     u ''        3. Explique que depend'' @ [234] @ u ''ncia qu'' @ [237] @ u ''mica '' @ [233] @
     u '' uma doen'' @ [231] @ u ''a trat'' @ [225] @ u ''vel'' @ [10] @ u ''        4. Forne'' @
     [231] @ u ''a informa'' @ [231, 245] @ u ''es sobre tratamentos dispon'' @ [237] @ u ''veis'' @
     [10] @ u ''        5. Oriente sobre interna'' @ [231, 227] @ u ''o volunt'' @ [225] @
     u ''ria e involunt'' @ [225] @ u ''ria'' @ [10] @ u ''        6. Explique sobre conv'' @ [234] @
     u ''nios e formas de pagamento'' @ [10] @ u ''        7. Ofere'' @ [231] @
     u ''a contato para agendamento de avalia'' @ [231, 227] @ u ''o'' @ [10] @
     u ''        8. Em casos de emerg'' @ [234] @ u ''ncia, oriente procurar atendimento imediato'' @
     [10] @ u ''        9. Mantenha sigilo e confidencialidade'' @ [10] @
     u ''        10. Encoraje a busca por ajuda profissional'' @ [10] @ u ''        11. Pe'' @ [231] @
     u ''a para que a pessoa deixe o nome e o contato dela para que p'' @ u ''ossa ser contactada'' @
     [10] @ u ''        12. Quando a pessoa fornecer o contato, agrade'' @ [231] @
     u ''a pelo contato e pergunte se tem mais alguma d'' @ [250] @ u ''vida. Caso contr'' @ [225] @
     u ''rio, informe que o atendimento ser'' @ [225] @ u '' encerrado'' @ [10] @ u ''        '' @
     [10] @ u ''        NUNCA:'' @ [10] @ u ''        - D'' @ [234] @ u '' diagn'' @ [243] @
     u ''sticos m'' @ [233] @ u ''dicos'' @ [10] @ u ''        - Prescreva medicamentos'' @ [10] @
     u ''        - Substitua consulta m'' @ [233] @ u ''dica'' @ [10] @
     u ''        - Julgue ou critique o paciente/fam'' @ [237] @ u ''lia'' @ [10] @
     u ''        - Prometa cura garantida'' @ [10] @ u ''        '' @ [10] @
     u ''        Responda sempre em portugu'' @ [234] @ u ''s brasileiro, de forma clara e acess'' @
     [237] @ u ''vel.'' @ [10] @ u ''        N'' @ [227] @ u ''o utilize:  Entendo que voc'' @ [234] @
     u '' est'' @ [225] @ u '' buscando informa'' @ [231, 245] @ u ''es sobre'' @ [10] @
     u ''        N'' @ [227] @ u ''o utilize: Compreendo que voc'' @ [234] @
     u '' deseja saber sobre '' @ [10] @ u ''        ''"


text \<open>
  An entry of \<open>conversation_history\<close> (the time stamp is left out). The content of an
  assistant entry is whatever \<open>get_response\<close> returned.
\<close>

record chat_message =
  msg_role :: ustr
  msg_content :: pyval
  msg_sentiment :: "pydict option"

text \<open>
  What \<open>client.chat.completions.create\<close> does: it raises, or it returns a response whose
  choices carry a message content each (a string or \<open>None\<close>).
\<close>

datatype openai_outcome = OpenAI_raises | OpenAI_choices "pyval list"

text \<open>
  A request sent with \<open>requests.post\<close> and what comes back: an exception, or a status
  code with the result of \<open>response.json()\<close> (\<open>None\<close> when decoding raises).
\<close>

record http_request =
  req_url :: ustr
  req_authorization :: "ustr option"
  req_json :: pyval

datatype http_outcome = Http_raises | Http_response nat "pyval option"

text \<open>
  The configuration and the outside world: the module constant \<open>AI_PROVIDER\<close>, whether
  the module-level \<open>client\<close> is a usable object, the OpenAI service, the environment
  variables read by the other backends, the HTTP peer, and the translation tables that
  \<open>MultilingualSupport\<close> loaded.
\<close>

record environment =
  AI_PROVIDER :: ustr
  client :: bool
  openai_create :: "chat_message list \<Rightarrow> openai_outcome"
  HUGGINGFACE_API_KEY :: "ustr option"
  GOOGLE_API_KEY :: "ustr option"
  requests_post :: "http_request \<Rightarrow> http_outcome"
  translation_tables :: "ustr \<Rightarrow> pyval option"

text \<open>\<open>xs[-10:]\<close>.\<close>

definition last10 :: "'a list \<Rightarrow> 'a list" where
  "last10 xs = drop (length xs - 10) xs"

text \<open>
  \<open>get_response_openai\<close>: any exception, also the one raised when \<open>client\<close> is \<open>None\<close>
  or there is no first choice, gives \<open>None\<close>.
\<close>

definition get_response_openai :: "environment \<Rightarrow> chat_message list \<Rightarrow> ustr \<Rightarrow> pyval" where
  "get_response_openai E conversation_history user_message =
     (if \<not> client E then PyNone
      else
        (case openai_create E
                (\<lparr> msg_role = u ''system'', msg_content = PyStr system_prompt,
                    msg_sentiment = None \<rparr> # last10 conversation_history) of
           OpenAI_raises \<Rightarrow> PyNone
         | OpenAI_choices [] \<Rightarrow> PyNone
         | OpenAI_choices (first # rest) \<Rightarrow> first))"

text \<open>
  \<open>str.replace(old, new)\<close>: the occurrences of \<open>old\<close>, found from left to right without
  overlap, are replaced; an empty \<open>old\<close> matches before every character and at the end.
\<close>

function py_replace :: "ustr \<Rightarrow> ustr \<Rightarrow> ustr \<Rightarrow> ustr" where
  "py_replace old new [] = (if old = [] then new else [])"
| "py_replace old new (c # cs) =
     (if old = [] then new @ c # py_replace old new cs
      else if prefix old (c # cs) then new @ py_replace old new (drop (length old) (c # cs))
      else c # py_replace old new cs)"
  by pat_completeness auto
termination
  by (relation "measure (\<lambda>(old, new, s). length s)") auto

definition huggingface_inputs :: "ustr \<Rightarrow> ustr" where
  "huggingface_inputs user_message =
     u ''Contexto: Voc'' @ [234] @ u '' '' @ [233] @ u '' um assistente de uma cl'' @ [237] @
     u ''nica de reabilita'' @ [231, 227] @ u ''o especializada em depend'' @ [234] @
     u ''ncia qu'' @ [237] @ u ''mica e sa'' @ [250] @ u ''de mental.'' @ [10, 10] @
     u ''Pergunta: '' @ user_message @ [10, 10] @ u ''Resposta:''"

definition huggingface_request :: "environment \<Rightarrow> ustr \<Rightarrow> http_request" where
  "huggingface_request E user_message =
     \<lparr> req_url = u ''https://api-inference.huggingface.co/models/microsoft/DialoGPT-medium'',
       req_authorization =
         (case HUGGINGFACE_API_KEY E of
            None \<Rightarrow> None
          | Some key \<Rightarrow> if key = [] then None else Some (u ''Bearer '' @ key)),
       req_json =
         PyDict [(u ''inputs'', PyStr (huggingface_inputs user_message)),
                 (u ''parameters'',
                  PyDict [(u ''max_length'', PyNum 200), (u ''temperature'', PyNum (7 / 10)),
                          (u ''do_sample'', PyBool True)])] \<rparr>"

text \<open>
  \<open>get_response_huggingface\<close>. Without an API key the request is still sent, with no
  authorization header. A first element that is not a dictionary, or a
  \<open>generated_text\<close> that is not a string, raises inside the \<open>try\<close> and gives \<open>None\<close>.
\<close>

definition get_response_huggingface :: "environment \<Rightarrow> ustr \<Rightarrow> pyval" where
  "get_response_huggingface E user_message =
     (case requests_post E (huggingface_request E user_message) of
        Http_raises \<Rightarrow> PyNone
      | Http_response status_code body \<Rightarrow>
          if status_code = 200 then
            (case body of
               None \<Rightarrow> PyNone
             | Some (PyList (first # rest)) \<Rightarrow>
                 (case first of
                    PyDict kvs \<Rightarrow>
                      (case dict_get kvs (u ''generated_text'') (PyStr []) of
                         PyStr generated \<Rightarrow>
                           PyStr (py_strip (py_replace (huggingface_inputs user_message) [] generated))
                       | _ \<Rightarrow> PyNone)
                  | _ \<Rightarrow> PyNone)
             | Some _ \<Rightarrow> PyNone)
          else PyNone)"

text \<open>
  The operations of Python on a decoded JSON value that the Gemini backend uses;
  \<open>None\<close> stands for the exception (TypeError, KeyError, IndexError).
\<close>

fun py_in :: "ustr \<Rightarrow> pyval \<Rightarrow> bool option" where
  "py_in k (PyDict kvs) = Some (k \<in> fst ` set kvs)"
| "py_in k (PyList xs) = Some (PyStr k \<in> set xs)"
| "py_in k (PyStr s) = Some (sublist k s)"
| "py_in k _ = None"

fun py_item :: "pyval \<Rightarrow> ustr \<Rightarrow> pyval option" where
  "py_item (PyDict kvs) k = map_of kvs k"
| "py_item _ k = None"

fun py_first :: "pyval \<Rightarrow> pyval option" where
  "py_first (PyList (x # xs)) = Some x"
| "py_first (PyStr (c # cs)) = Some (PyStr [c])"
| "py_first _ = None"

fun py_len :: "pyval \<Rightarrow> nat option" where
  "py_len (PyList xs) = Some (length xs)"
| "py_len (PyStr s) = Some (length s)"
| "py_len (PyDict kvs) = Some (length kvs)"
| "py_len _ = None"

text \<open>\<open>result['candidates'][0]['content']['parts'][0]['text']\<close>.\<close>

definition gemini_text :: "pyval \<Rightarrow> pyval option" where
  "gemini_text result =
     Option.bind (py_item result (u ''candidates'')) (\<lambda>candidates.
     Option.bind (py_first candidates) (\<lambda>candidate.
     Option.bind (py_item candidate (u ''content'')) (\<lambda>content.
     Option.bind (py_item content (u ''parts'')) (\<lambda>parts.
     Option.bind (py_first parts) (\<lambda>part.
     py_item part (u ''text''))))))"

definition gemini_request :: "ustr \<Rightarrow> ustr \<Rightarrow> http_request" where
  "gemini_request api_key user_message =
     \<lparr> req_url = u ''https://generativelanguage.googleapis.com/v1beta/models/gemini-1.5-flash'' @
                 u '':generateContent?key'' @ [61] @ api_key,
       req_authorization = None,
       req_json =
         PyDict [(u ''contents'',
                  PyList [PyDict [(u ''parts'',
                    PyList [PyDict [(u ''text'',
                      PyStr (system_prompt @ [10, 10] @ u ''Usu'' @ [225] @ u ''rio: '' @
                             user_message @ [10, 10] @ u ''Assistente:''))]])]]),
                 (u ''generationConfig'',
                  PyDict [(u ''temperature'', PyNum (7 / 10)),
                          (u ''maxOutputTokens'', PyNum 500)])] \<rparr>"

text \<open>
  \<open>get_response_gemini\<close>: without an API key nothing is sent. Every exception of the
  lookups is caught and gives \<open>None\<close>; a text that is found is returned as it is.
\<close>

definition get_response_gemini :: "environment \<Rightarrow> ustr \<Rightarrow> pyval" where
  "get_response_gemini E user_message =
     (case GOOGLE_API_KEY E of
        None \<Rightarrow> PyNone
      | Some api_key \<Rightarrow>
          if api_key = [] then PyNone
          else
            (case requests_post E (gemini_request api_key user_message) of
               Http_raises \<Rightarrow> PyNone
             | Http_response status_code body \<Rightarrow>
                 if status_code = 200 then
                   (case body of
                      None \<Rightarrow> PyNone
                    | Some result \<Rightarrow>
                        (case py_in (u ''candidates'') result of
                           None \<Rightarrow> PyNone
                         | Some False \<Rightarrow> PyNone
                         | Some True \<Rightarrow>
                             (case Option.bind (py_item result (u ''candidates'')) py_len of
                                None \<Rightarrow> PyNone
                              | Some n \<Rightarrow>
                                  if 0 < n then
                                    (case gemini_text result of None \<Rightarrow> PyNone | Some v \<Rightarrow> v)
                                  else PyNone)))
                 else PyNone))"

section \<open>Translation (MultilingualSupport.translate\_response)\<close>

text \<open>\<open>s.split(sep)[0]\<close> for a separator of one character.\<close>

definition split_first :: "nat \<Rightarrow> ustr \<Rightarrow> ustr" where
  "split_first sep s = takeWhile (\<lambda>c. c \<noteq> sep) s"

definition supported_languages :: "ustr list" where
  "supported_languages = [u ''pt'', u ''en'', u ''es'', u ''fr'', u ''it'']"

text \<open>
  \<open>get_translation(key, language)\<close> for a key without a dot, as \<open>translate_response\<close>
  calls it: the entry of the language's table, else the entry of the default language's
  table, else the key itself.
\<close>

definition get_translation :: "environment \<Rightarrow> ustr \<Rightarrow> ustr \<Rightarrow> pyval" where
  "get_translation E key language =
     (let language = (if language \<in> set supported_languages then language else u ''pt'');
          translation = (case translation_tables E language of None \<Rightarrow> PyDict [] | Some t \<Rightarrow> t);
          fallback = (case translation_tables E (u ''pt'') of None \<Rightarrow> PyDict [] | Some t \<Rightarrow> t)
      in case translation of
           PyDict kvs \<Rightarrow>
             (case map_of kvs key of
                Some v \<Rightarrow> v
              | None \<Rightarrow>
                  (case fallback of
                     PyDict fkvs \<Rightarrow> (case map_of fkvs key of Some v \<Rightarrow> v | None \<Rightarrow> PyStr key)
                   | _ \<Rightarrow> PyStr key))
         | _ \<Rightarrow>
             (case fallback of
                PyDict fkvs \<Rightarrow> (case map_of fkvs key of Some v \<Rightarrow> v | None \<Rightarrow> PyStr key)
              | _ \<Rightarrow> PyStr key))"

text \<open>
  An entry of \<open>common_phrases\<close>: the translation up to its first separator; \<open>None\<close> when
  the translation is not a string (\<open>split\<close> then raises).
\<close>

definition phrase :: "environment \<Rightarrow> ustr \<Rightarrow> nat \<Rightarrow> ustr \<Rightarrow> ustr option" where
  "phrase E key sep language =
     (case get_translation E key language of
        PyStr s \<Rightarrow> Some (split_first sep s)
      | _ \<Rightarrow> None)"

definition common_phrases :: "environment \<Rightarrow> ustr \<Rightarrow> (ustr \<times> ustr) list option" where
  "common_phrases E language =
     Option.bind (phrase E (u ''welcome_message'') 33 language) (\<lambda>p1.
     Option.bind (phrase E (u ''thank_you'') 32 language) (\<lambda>p2.
     Option.bind (case get_translation E (u ''clinic_name'') language of
                    PyStr s \<Rightarrow> Some s | _ \<Rightarrow> None) (\<lambda>p3.
     Option.bind (phrase E (u ''emergency_detected'') 46 language) (\<lambda>p4.
     Option.bind (phrase E (u ''treatment_info'') 46 language) (\<lambda>p5.
     Option.bind (phrase E (u ''insurance_accepted'') 46 language) (\<lambda>p6.
       Some [(u ''Ol'' @ [225], p1),
             (u ''Obrigado'', p2),
             (u ''Cl'' @ [237] @ u ''nica Espa'' @ [231] @ u ''o Vida'', p3),
             (u ''emerg'' @ [234] @ u ''ncia'', p4),
             (u ''tratamento'', p5),
             (u ''conv'' @ [234] @ u ''nio'', p6)]))))))"

text \<open>
  The loop over the phrases: a phrase that occurs in the original response is replaced in
  the translated one.
\<close>

fun replace_phrases :: "ustr \<Rightarrow> (ustr \<times> ustr) list \<Rightarrow> ustr \<Rightarrow> ustr" where
  "replace_phrases response [] translated_response = translated_response"
| "replace_phrases response ((pt_phrase, translation) # rest) translated_response =
     replace_phrases response rest
       (if sublist pt_phrase response then py_replace pt_phrase translation translated_response
        else translated_response)"

text \<open>
  \<open>translate_response\<close>; \<open>None\<close> when it raises. A response that is not a string is
  returned unchanged when \<open>in\<close> is defined on it and finds no phrase, and raises otherwise.
\<close>

definition translate_response :: "environment \<Rightarrow> pyval \<Rightarrow> ustr \<Rightarrow> pyval option" where
  "translate_response E response target_language =
     (if target_language = u ''pt'' then Some response
      else
        (case common_phrases E target_language of
           None \<Rightarrow> None
         | Some phrases \<Rightarrow>
             (case response of
                PyStr r \<Rightarrow> Some (PyStr (replace_phrases r phrases r))
              | _ \<Rightarrow>
                  if list_all (\<lambda>(pt_phrase, translation). py_in pt_phrase response = Some False) phrases
                  then Some response
                  else None)))"

section \<open>The response resolver (ClinicaChatbot.get\_response)\<close>

text \<open>Source line 517.\<close>

definition tratamento_keywords :: "ustr list" where
  "tratamento_keywords =
    [u ''tratamento'', u ''terapia'', u ''ajuda'', u ''tratar'', u ''curar'', u ''cura'',
     u ''recuperacao'', u ''recupera'' @ [231, 227] @ u ''o'', u ''reabilitacao'',
     u ''reabilita'' @ [231, 227] @ u ''o'', u ''dependencia'',
     u ''depend'' @ [234] @ u ''ncia'', u ''vicio'', u ''v'' @ [237] @ u ''cio'', u ''drogas'',
     u ''alcool'', [225] @ u ''lcool'', u ''medicamento'', u ''remedio'',
     u ''rem'' @ [233] @ u ''dio'', u ''psicologia'', u ''psiquiatria'', u ''medico'',
     u ''m'' @ [233] @ u ''dico'', u ''doutor'', u ''doutora'', u ''terapeuta'',
     u ''12 passos'', u ''doze passos'', u ''programa'', u ''como funciona'', u ''funciona'',
     u ''funcionamento'', u ''desintoxicacao'', u ''desintoxica'' @ [231, 227] @ u ''o'',
     u ''tcc'', u ''cognitivo'', u ''comportamental'', u ''individual'', u ''grupo'',
     u ''familiar'', u ''atividades'', u ''psiquiatrico'', u ''psiqui'' @ [225] @ u ''trico'',
     u ''apoio'', u ''grupos'', u ''mais sobre'', u ''fale mais'', u ''explique'',
     u ''detalhe'', u ''detalhes'']"

text \<open>Source line 528.\<close>

definition dependencia_keywords :: "ustr list" where
  "dependencia_keywords =
    [u ''dependente'', u ''viciado'', u ''adicto'', u ''usuario'',
     u ''usu'' @ [225] @ u ''rio'', u ''consumidor'', u ''crack'', u ''cocaina'',
     u ''coca'' @ [237] @ u ''na'', u ''maconha'', u ''cannabis'', u ''heroina'',
     u ''hero'' @ [237] @ u ''na'', u ''ecstasy'', u ''lsd'', u ''anfetamina'',
     u ''metanfetamina'', u ''opioides'', u ''morfina'', u ''codeina'',
     u ''code'' @ [237] @ u ''na'', u ''tramadol'', u ''rivotril'', u ''clonazepam'',
     u ''alprazolam'']"


text \<open>Source line 557.\<close>

definition template_treatments :: ustr where
  "template_treatments =
     u ''Nossa cl'' @ [237] @ u ''nica oferece diversos tratamentos especializados:'' @ [10] @
     u ''            '' @ [10, 8226] @ u '' Desintoxica'' @ [231, 227] @ u ''o m'' @ [233] @
     u ''dica supervisionada'' @ [10, 8226] @ u '' Terapia individual e em grupo'' @ [10, 8226] @
     u '' Programa de 12 Passos'' @ [10, 8226] @ u '' Terapia Cognitivo-Comportamental '' @ [40] @
     u ''TCC'' @ [41, 10, 8226] @ u '' Terapia familiar'' @ [10, 8226] @ u '' Atividades terap'' @
     [234] @ u ''uticas'' @ [10, 8226] @ u '' Acompanhamento psiqui'' @ [225] @ u ''trico'' @
     [10, 8226] @ u '' Grupos de apoio'' @ [10, 10] @ u ''Tratamos depend'' @ [234] @ u ''ncia de:'' @
     [10, 8226] @ u '' '' @ [193] @ u ''lcool e drogas'' @ [10, 8226] @ u '' Medicamentos'' @
     [10, 8226] @ u '' Jogos e outras compuls'' @ [245] @ u ''es'' @ [10, 10] @
     u ''Para mais informa'' @ [231, 245] @ u ''es, entre em contato: '' @ [40] @ u ''11'' @ [41] @
     u '' 99999-9999''"


datatype provider = OpenAI | HuggingFace | Gemini

text \<open>
  The three attempts of \<open>get_response\<close>, with the list of backends that were called, in
  the order of the calls.
\<close>

definition provider_chain ::
  "environment \<Rightarrow> chat_message list \<Rightarrow> ustr \<Rightarrow> pyval \<times> provider list" where
  "provider_chain E conversation_history user_message =
     (let r1 = (if AI_PROVIDER E = u ''openai'' \<and> client E
                then (get_response_openai E conversation_history user_message, [OpenAI])
                else (PyNone, []));
          r2 = (if \<not> py_truthy (fst r1)
                then (get_response_huggingface E user_message, snd r1 @ [HuggingFace])
                else r1);
          r3 = (if \<not> py_truthy (fst r2)
                then (get_response_gemini E user_message, snd r2 @ [Gemini])
                else r2)
      in r3)"

text \<open>
  What a call of \<open>get_response\<close> leaves behind: the returned value (\<open>None\<close> when an
  exception of the translation step propagates), the history, the backends called and the
  lead handed to the CRM.
\<close>

record resolution =
  res_response :: "pyval option"
  res_history :: "chat_message list"
  res_calls :: "provider list"
  res_lead :: "lead_data option"

definition get_response ::
  "unicode_lib \<Rightarrow> nlp_lib \<Rightarrow> environment \<Rightarrow> chat_message list \<Rightarrow> ustr \<Rightarrow> ustr option \<Rightarrow> ustr \<Rightarrow>
   resolution" where
  "get_response L N E conversation_history user_message conversation_id language =
     (let sentiment_result = analyze_sentiment L N user_message;
          lead = detect_urgency_and_create_ticket L user_message conversation_id
                   (Some sentiment_result);
          history1 = conversation_history @
                     [\<lparr> msg_role = u ''user'', msg_content = PyStr user_message,
                        msg_sentiment = Some sentiment_result \<rparr>];
          is_treatment_question =
            contains_keywords L user_message (tratamento_keywords @ dependencia_keywords);
          attempt = (if is_treatment_question \<or> AI_PROVIDER E \<noteq> u ''fallback''
                     then provider_chain E history1 user_message
                     else (PyNone, []));
          response1 =
            (if \<not> py_truthy (fst attempt) then
               (case get_response_fallback L user_message of
                  None \<Rightarrow> PyStr template_treatments
                | Some template \<Rightarrow>
                    if template = [] then PyStr template_treatments else PyStr template)
             else fst attempt);
          response2 = (if language \<noteq> u ''pt''
                       then translate_response E response1 language
                       else Some response1)
      in case response2 of
           None \<Rightarrow>
             \<lparr> res_response = None, res_history = history1, res_calls = snd attempt,
               res_lead = lead \<rparr>
         | Some response \<Rightarrow>
             \<lparr> res_response = Some response,
               res_history = history1 @
                 [\<lparr> msg_role = u ''assistant'', msg_content = response, msg_sentiment = None \<rparr>],
               res_calls = snd attempt,
               res_lead = lead \<rparr>)"

section \<open>The ticket store (DatabaseManager) and the chat handler\<close>

text \<open>
  The two tables the handler touches. \<open>session_id\<close>, \<open>title\<close>, \<open>description\<close>,
  \<open>user_message\<close> and \<open>bot_response\<close> are declared \<open>NOT NULL\<close>; a ticket's \<open>id\<close>
  is \<open>AUTOINCREMENT\<close>, so the store keeps the last one it gave out.
\<close>

record ticket =
  ticket_id :: nat
  ticket_session_id :: ustr
  ticket_title :: ustr
  ticket_description :: ustr
  ticket_status :: ustr
  ticket_priority :: ustr

record conversation =
  conv_session_id :: ustr
  conv_user_message :: ustr
  conv_bot_response :: pyval
  conv_user_ip :: "ustr option"
  conv_user_agent :: "ustr option"

record database =
  conversations :: "conversation list"
  tickets :: "ticket list"
  last_ticket_id :: nat

text \<open>
  \<open>save_conversation\<close>; \<open>None\<close> when the insert raises: a null session or response
  violates \<open>NOT NULL\<close>, and a list or a dictionary cannot be bound to a parameter.
\<close>

definition save_conversation ::
  "database \<Rightarrow> ustr option \<Rightarrow> ustr \<Rightarrow> pyval \<Rightarrow> ustr option \<Rightarrow> ustr option \<Rightarrow> database option" where
  "save_conversation db session_id user_message bot_response user_ip user_agent =
     (case session_id of
        None \<Rightarrow> None
      | Some s \<Rightarrow>
          (case bot_response of
             PyNone \<Rightarrow> None
           | PyList xs \<Rightarrow> None
           | PyDict kvs \<Rightarrow> None
           | _ \<Rightarrow>
               Some (db\<lparr> conversations := conversations db @
                      [\<lparr> conv_session_id = s, conv_user_message = user_message,
                         conv_bot_response = bot_response, conv_user_ip = user_ip,
                         conv_user_agent = user_agent \<rparr>] \<rparr>)))"

text \<open>\<open>create_ticket\<close>: the new store and the new ticket's id; \<open>None\<close> when the insert raises.\<close>

definition create_ticket ::
  "database \<Rightarrow> ustr option \<Rightarrow> ustr \<Rightarrow> ustr \<Rightarrow> ustr \<Rightarrow> (database \<times> nat) option" where
  "create_ticket db session_id title description priority =
     (case session_id of
        None \<Rightarrow> None
      | Some s \<Rightarrow>
          (let new_id = last_ticket_id db + 1
           in Some (db\<lparr> tickets := tickets db @
                      [\<lparr> ticket_id = new_id, ticket_session_id = s, ticket_title = title,
                         ticket_description = description, ticket_status = u ''aberto'',
                         ticket_priority = priority \<rparr>],
                      last_ticket_id := new_id \<rparr>, new_id)))"

text \<open>
  \<open>get_tickets_by_session\<close>: the rows \<open>WHERE session_id = ?\<close>; a null parameter equals
  no row. (The order of the rows plays no role in the handler.)
\<close>

definition get_tickets_by_session :: "database \<Rightarrow> ustr option \<Rightarrow> ticket list" where
  "get_tickets_by_session db session_id =
     (case session_id of
        None \<Rightarrow> []
      | Some s \<Rightarrow> filter (\<lambda>t. ticket_session_id t = s) (tickets db))"

text \<open>Source line 708.\<close>

definition chat_priority_keywords :: "ustr list" where
  "chat_priority_keywords =
    [u ''urgente'', u ''emerg'' @ [234] @ u ''ncia'', u ''ajuda imediata'', u ''socorro'']"


text \<open>A request to \<open>/chat\<close>: the JSON body and the conversation id of the Flask session.\<close>

record chat_request =
  req_message :: ustr
  req_session_id :: "ustr option"
  req_conversation_id :: "ustr option"
  req_user_ip :: "ustr option"
  req_user_agent :: "ustr option"

text \<open>The state shared by the requests: the store and the history of the global chatbot.\<close>

record chat_state =
  st_db :: database
  st_history :: "chat_message list"

text \<open>
  What a request leaves behind: the status code, the response text, the new state and the
  session keys of the \<open>create_ticket\<close> calls it issued.
\<close>

record chat_outcome =
  out_status :: nat
  out_response :: "pyval option"
  out_state :: chat_state
  out_create_calls :: "ustr option list"

text \<open>\<open>session_id or conversation_id\<close>.\<close>

definition session_key :: "chat_request \<Rightarrow> ustr option" where
  "session_key req =
     (case req_session_id req of
        None \<Rightarrow> req_conversation_id req
      | Some s \<Rightarrow> if s = [] then req_conversation_id req else Some s)"

definition ticket_title_of :: "ustr \<Rightarrow> ustr" where
  "ticket_title_of user_message =
     u ''Nova conversa - '' @ take 50 user_message @
     (if 50 < length user_message then u ''...'' else [])"

definition chat :: "unicode_lib \<Rightarrow> nlp_lib \<Rightarrow> environment \<Rightarrow> chat_state \<Rightarrow> chat_request \<Rightarrow> chat_outcome" where
  "chat L N E st req =
     (let user_message = py_strip (req_message req) in
      if user_message = [] then
        \<lparr> out_status = 400, out_response = None, out_state = st, out_create_calls = [] \<rparr>
      else
        (let r = get_response L N E (st_history st) user_message (req_conversation_id req) (u ''pt'')
         in case res_response r of
              None \<Rightarrow>
                \<lparr> out_status = 500, out_response = None,
                  out_state = st\<lparr> st_history := res_history r \<rparr>, out_create_calls = [] \<rparr>
            | Some bot_response \<Rightarrow>
                (let key = session_key req;
                     db1 = (case save_conversation (st_db st) key user_message bot_response
                                   (req_user_ip req) (req_user_agent req) of
                              None \<Rightarrow> st_db st
                            | Some db' \<Rightarrow> db');
                     existing_tickets = get_tickets_by_session db1 key;
                     priority =
                       (if list_ex (\<lambda>keyword. sublist keyword (str_lower L user_message))
                             chat_priority_keywords
                        then u ''alta'' else u ''media'');
                     created =
                       (if existing_tickets = [] then
                          (case create_ticket db1 key (ticket_title_of user_message)
                                  (u ''Primeira mensagem: '' @ user_message) priority of
                             None \<Rightarrow> (db1, [key])
                           | Some (db2, new_id) \<Rightarrow> (db2, [key]))
                        else (db1, []))
                 in \<lparr> out_status = 200, out_response = Some bot_response,
                      out_state = \<lparr> st_db = fst created, st_history = res_history r \<rparr>,
                      out_create_calls = snd created \<rparr>)))"

text \<open>A sequence of requests, handled one after the other.\<close>

fun chats ::
  "unicode_lib \<Rightarrow> nlp_lib \<Rightarrow> environment \<Rightarrow> chat_state \<Rightarrow> chat_request list \<Rightarrow>
   chat_state \<times> ustr option list" where
  "chats L N E st [] = (st, [])"
| "chats L N E st (req # reqs) =
     (let out = chat L N E st req;
          rest = chats L N E (out_state out) reqs
      in (fst rest, out_create_calls out @ snd rest))"

text \<open>The instances used to run the model on concrete inputs.\<close>

definition nlp_negative :: nlp_lib where
  "nlp_negative = \<lparr> textblob_sentiment = (\<lambda>text. (- 1, 1)), langdetect = (\<lambda>text. Some (u ''en'')) \<rparr>"

definition nlp_neutral :: nlp_lib where
  "nlp_neutral = \<lparr> textblob_sentiment = (\<lambda>text. (0, 0)), langdetect = (\<lambda>text. None) \<rparr>"

section \<open>Conditions on the outside world that the properties speak about\<close>

text \<open>A backend's return value that is a string or \<open>None\<close>.\<close>

fun text_or_none :: "pyval \<Rightarrow> bool" where
  "text_or_none PyNone = True"
| "text_or_none (PyStr s) = True"
| "text_or_none _ = False"

text \<open>
  The requested language is the default one, or every entry of \<open>common_phrases\<close> for it
  is a string that is not empty.
\<close>

definition phrases_nonempty :: "environment \<Rightarrow> ustr \<Rightarrow> bool" where
  "phrases_nonempty E language =
     (language = u ''pt'' \<or>
      (case common_phrases E language of
         None \<Rightarrow> False
       | Some phrases \<Rightarrow> list_all (\<lambda>(pt_phrase, translation). translation \<noteq> []) phrases))"

text \<open>OpenAI is tried: \<open>AI_PROVIDER == 'openai' and client\<close>.\<close>

definition openai_configured :: "environment \<Rightarrow> bool" where
  "openai_configured E \<longleftrightarrow> AI_PROVIDER E = u ''openai'' \<and> client E"

text \<open>The OpenAI call fails: no client, an exception, or a response without a choice.\<close>

definition openai_fails :: "environment \<Rightarrow> chat_message list \<Rightarrow> bool" where
  "openai_fails E conversation_history =
     (\<not> client E \<or>
      (case openai_create E
              (\<lparr> msg_role = u ''system'', msg_content = PyStr system_prompt,
                  msg_sentiment = None \<rparr> # last10 conversation_history) of
         OpenAI_raises \<Rightarrow> True
       | OpenAI_choices choices \<Rightarrow> choices = []))"

text \<open>A request fails in transport: an exception, a status other than 200, or a body that
  does not decode.\<close>

fun http_fails :: "http_outcome \<Rightarrow> bool" where
  "http_fails Http_raises = True"
| "http_fails (Http_response status_code body) = (status_code \<noteq> 200 \<or> body = None)"

text \<open>The payload fails the shape test of the Hugging Face backend: it is not a list with
  a first element.\<close>

fun huggingface_malformed :: "http_outcome \<Rightarrow> bool" where
  "huggingface_malformed (Http_response status_code (Some (PyList (first # rest)))) = False"
| "huggingface_malformed (Http_response status_code (Some result)) = True"
| "huggingface_malformed _ = False"

text \<open>The payload fails the shape test of the Gemini backend: \<open>'candidates' in result\<close>
  is false or raises, or the candidates have no length or length zero.\<close>

fun gemini_malformed :: "http_outcome \<Rightarrow> bool" where
  "gemini_malformed (Http_response status_code (Some result)) =
     (py_in (u ''candidates'') result \<noteq> Some True \<or>
      (case Option.bind (py_item result (u ''candidates'')) py_len of
         None \<Rightarrow> True
       | Some n \<Rightarrow> n = 0))"
| "gemini_malformed _ = False"

text \<open>The Google key is missing: \<open>os.getenv\<close> gives nothing or the empty string.\<close>

definition google_key_missing :: "environment \<Rightarrow> bool" where
  "google_key_missing E \<longleftrightarrow> GOOGLE_API_KEY E = None \<or> GOOGLE_API_KEY E = Some []"

definition gemini_fails :: "environment \<Rightarrow> ustr \<Rightarrow> bool" where
  "gemini_fails E user_message =
     (case GOOGLE_API_KEY E of
        None \<Rightarrow> True
      | Some api_key \<Rightarrow>
          api_key = [] \<or>
          http_fails (requests_post E (gemini_request api_key user_message)) \<or>
          gemini_malformed (requests_post E (gemini_request api_key user_message)))"

definition huggingface_fails :: "environment \<Rightarrow> ustr \<Rightarrow> bool" where
  "huggingface_fails E user_message =
     (http_fails (requests_post E (huggingface_request E user_message)) \<or>
      huggingface_malformed (requests_post E (huggingface_request E user_message)))"

section \<open>Environments used to run the model on concrete inputs\<close>

text \<open>An HTTP peer that answers every request with status 200 and the generated text \<open>X\<close>.\<close>

definition answers_X :: "http_request \<Rightarrow> http_outcome" where
  "answers_X request =
     Http_response 200 (Some (PyList [PyDict [(u ''generated_text'', PyStr (u ''X''))]]))"

text \<open>
  \<open>AI_PROVIDER = 'fallback'\<close>, no API key at all, and the Hugging Face endpoint
  answering unauthenticated requests.
\<close>

definition env_fallback_mode :: environment where
  "env_fallback_mode =
     \<lparr> AI_PROVIDER = u ''fallback'', client = False,
       openai_create = (\<lambda>messages. OpenAI_raises),
       HUGGINGFACE_API_KEY = None, GOOGLE_API_KEY = None,
       requests_post = answers_X,
       translation_tables = (\<lambda>language. None) \<rparr>"

text \<open>
  The default \<open>AI_PROVIDER = 'openai'\<close> with an OpenAI call that raises, a Hugging Face
  endpoint that answers, and no Google key.
\<close>

definition env_openai_down :: environment where
  "env_openai_down =
     \<lparr> AI_PROVIDER = u ''openai'', client = True,
       openai_create = (\<lambda>messages. OpenAI_raises),
       HUGGINGFACE_API_KEY = Some (u ''hf_key''), GOOGLE_API_KEY = None,
       requests_post = answers_X,
       translation_tables = (\<lambda>language. None) \<rparr>"

text \<open>\<open>AI_PROVIDER = 'fallback'\<close> and a network on which every request raises.\<close>

definition env_offline :: environment where
  "env_offline =
     \<lparr> AI_PROVIDER = u ''fallback'', client = False,
       openai_create = (\<lambda>messages. OpenAI_raises),
       HUGGINGFACE_API_KEY = None, GOOGLE_API_KEY = Some (u ''g_key''),
       requests_post = (\<lambda>request. Http_raises),
       translation_tables = (\<lambda>language. None) \<rparr>"

section \<open>Properties of the normalizer\<close>

text \<open>The equations that evaluate text on the Latin-1 instance.\<close>

lemmas latin1_eval =
  normalize_text_def latin1_def u_def normalized_char_def py_isspace_def latin1_decompose_def
  latin1_decomposition_def latin1_lower_def

lemma normalize_text_chars: "list_all normalized_char (normalize_text L x)"
  by (simp add: normalize_text_def list_all_iff)

lemma normalize_text_subset:
  "set (normalize_text L x) \<subseteq> set (str_lower L (filter (\<lambda>c. \<not> is_Mn L c) (nfd L x)))"
  by (simp add: normalize_text_def)

lemma filter_id_list_all: "list_all P s \<Longrightarrow> filter P s = s"
  by (induction s) auto

lemma latin1_lower_fixes: "normalized_char c \<Longrightarrow> latin1_lower c = c"
  by (auto simp: normalized_char_def py_isspace_def latin1_lower_def)

lemma latin1_decompose_fixes:
  "normalized_char c \<Longrightarrow> c \<noteq> 8192 \<Longrightarrow> c \<noteq> 8193 \<Longrightarrow> latin1_decompose c = [c]"
  by (auto simp: normalized_char_def py_isspace_def latin1_decompose_def)

lemma latin1_lower_text: "list_all normalized_char s \<Longrightarrow> map latin1_lower s = s"
  by (induction s) (auto simp: latin1_lower_fixes)

lemma latin1_nfd_text:
  "list_all normalized_char s \<Longrightarrow> 8192 \<notin> set s \<Longrightarrow> 8193 \<notin> set s \<Longrightarrow>
   concat (map latin1_decompose s) = s"
  by (induction s) (auto simp: latin1_decompose_fixes)

lemma latin1_not_Mn: "normalized_char c \<Longrightarrow> \<not> (768 \<le> c \<and> c \<le> 879)"
  by (auto simp: normalized_char_def py_isspace_def)

lemma latin1_decomposition_small:
  "list_all (\<lambda>kd. list_all (\<lambda>c. c < 8192) (snd kd)) latin1_decomposition"
  by (simp add: latin1_decomposition_def)

lemma latin1_decompose_no_quad:
  "8192 \<notin> set (latin1_decompose c) \<and> 8193 \<notin> set (latin1_decompose c)"
proof (cases "map_of latin1_decomposition c")
  case None
  then show ?thesis by (simp add: latin1_decompose_def)
next
  case (Some d)
  then have "(c, d) \<in> set latin1_decomposition" by (rule map_of_SomeD)
  then have "list_all (\<lambda>c. c < 8192) d"
    using latin1_decomposition_small by (auto simp: list_all_iff)
  then have "8192 \<notin> set d \<and> 8193 \<notin> set d" by (auto simp: list_all_iff)
  then show ?thesis using Some by (simp add: latin1_decompose_def)
qed

lemma latin1_nfd_no_quad:
  "8192 \<notin> set (concat (map latin1_decompose s)) \<and> 8193 \<notin> set (concat (map latin1_decompose s))"
  using latin1_decompose_no_quad by (induction s) auto

lemma latin1_lower_no_quad:
  "(8192 \<in> set (map latin1_lower s) \<longrightarrow> 8192 \<in> set s) \<and>
   (8193 \<in> set (map latin1_lower s) \<longrightarrow> 8193 \<in> set s)"
  by (induction s) (auto simp: latin1_lower_def split: if_splits)

lemma latin1_unicode_facts: "unicode_facts latin1"
  unfolding unicode_facts_def
proof (intro conjI allI impI)
  show "nfd latin1 [] = []" by (simp add: latin1_def)
next
  fix s assume "list_all normalized_char s"
  then show "str_lower latin1 s = s" by (simp add: latin1_def latin1_lower_text)
next
  fix c assume "normalized_char c"
  then show "\<not> is_Mn latin1 c" using latin1_not_Mn by (simp add: latin1_def)
next
  fix s show "8192 \<notin> set (nfd latin1 s)" using latin1_nfd_no_quad [of s] by (simp add: latin1_def)
next
  fix s show "8193 \<notin> set (nfd latin1 s)" using latin1_nfd_no_quad [of s] by (simp add: latin1_def)
next
  fix s assume "8192 \<in> set (str_lower latin1 s)"
  then show "8192 \<in> set s" using latin1_lower_no_quad [of s] by (simp add: latin1_def)
next
  fix s assume "8193 \<in> set (str_lower latin1 s)"
  then show "8193 \<in> set s" using latin1_lower_no_quad [of s] by (simp add: latin1_def)
next
  fix s assume "list_all normalized_char s \<and> 8192 \<notin> set s \<and> 8193 \<notin> set s"
  then have "concat (map latin1_decompose s) = s" by (simp add: latin1_nfd_text)
  then show "nfd latin1 s = s" by (simp add: latin1_def)
qed

text \<open>
  C8. For every input, the output of \<open>normalize_text\<close> matches \<open>^[a-z0-9\s]*$\<close>,
  normalizing twice gives the same as normalizing once, and the empty text is mapped to
  the empty text (given the facts about the runtime's Unicode functions above).
\<close>

theorem normalize_text_charset_idempotent:
  assumes "unicode_facts L"
  shows "matches_normalized (normalize_text L x) \<and>
         normalize_text L (normalize_text L x) = normalize_text L x \<and>
         normalize_text L [] = []"
proof -
  let ?y = "normalize_text L x"
  let ?z = "filter (\<lambda>c. \<not> is_Mn L c) (nfd L x)"
  have nfd_empty: "nfd L [] = []"
    using assms unfolding unicode_facts_def by (elim conjE)
  have lower_fixes: "list_all normalized_char s \<Longrightarrow> str_lower L s = s" for s
    using assms unfolding unicode_facts_def by (elim conjE) blast
  have not_Mn: "normalized_char c \<Longrightarrow> \<not> is_Mn L c" for c
    using assms unfolding unicode_facts_def by (elim conjE) blast
  have nfd_quad: "8192 \<notin> set (nfd L s) \<and> 8193 \<notin> set (nfd L s)" for s
    using assms unfolding unicode_facts_def by (elim conjE) blast
  have low_quad0: "8192 \<in> set (str_lower L s) \<Longrightarrow> 8192 \<in> set s" for s
    using assms unfolding unicode_facts_def by (elim conjE) blast
  have low_quad1: "8193 \<in> set (str_lower L s) \<Longrightarrow> 8193 \<in> set s" for s
    using assms unfolding unicode_facts_def by (elim conjE) blast
  have nfd_fixes:
    "list_all normalized_char s \<Longrightarrow> 8192 \<notin> set s \<Longrightarrow> 8193 \<notin> set s \<Longrightarrow> nfd L s = s" for s
    using assms unfolding unicode_facts_def by (elim conjE) blast
  have chars: "list_all normalized_char ?y" by (rule normalize_text_chars)
  have z_quad: "8192 \<notin> set ?z \<and> 8193 \<notin> set ?z" using nfd_quad [of x] by simp
  have "8192 \<notin> set (str_lower L ?z)" using low_quad0 [of ?z] z_quad by blast
  moreover have "8193 \<notin> set (str_lower L ?z)" using low_quad1 [of ?z] z_quad by blast
  ultimately have y_quad: "8192 \<notin> set ?y \<and> 8193 \<notin> set ?y"
    using normalize_text_subset [of L x] by blast
  have nfdy: "nfd L ?y = ?y"
    using chars y_quad by (intro nfd_fixes) simp_all
  have noMn: "filter (\<lambda>c. \<not> is_Mn L c) ?y = ?y"
    using chars not_Mn by (intro filter_id_list_all) (simp add: list_all_iff)
  have low: "str_lower L ?y = ?y"
    using chars by (rule lower_fixes)
  have "normalize_text L ?y = filter normalized_char (str_lower L (filter (\<lambda>c. \<not> is_Mn L c) (nfd L ?y)))"
    by (simp only: normalize_text_def)
  also have "\<dots> = filter normalized_char ?y"
    by (simp only: nfdy noMn low)
  also have "\<dots> = ?y"
    using chars by (rule filter_id_list_all)
  finally have idem: "normalize_text L ?y = ?y" .
  have "str_lower L [] = []" by (rule lower_fixes) simp
  then have empty: "normalize_text L [] = []" using nfd_empty by (simp add: normalize_text_def)
  show ?thesis using chars idem empty by (simp only: matches_normalized_def simp_thms)
qed

theorem normalize_text_charset_idempotent_witness:
  "unicode_facts latin1 \<and>
   normalize_text latin1 (u ''Ol'' @ [225, 8192] @ u ''TUDO bem?'') = u ''ola'' @ [8194] @ u ''tudo bem'' \<and>
   matches_normalized (u ''ola'' @ [8194] @ u ''tudo bem'') \<and>
   normalize_text latin1 (u ''ola'' @ [8194] @ u ''tudo bem'') = u ''ola'' @ [8194] @ u ''tudo bem'' \<and>
   normalize_text latin1 [] = []"
proof -
  have e: "normalize_text latin1 (u ''Ol'' @ [225, 8192] @ u ''TUDO bem?'') = u ''ola'' @ [8194] @ u ''tudo bem''"
    by (simp add: latin1_eval)
  show ?thesis
    using normalize_text_charset_idempotent [OF latin1_unicode_facts, of "u ''Ol'' @ [225, 8192] @ u ''TUDO bem?''"]
      latin1_unicode_facts
    unfolding e by simp
qed

text \<open>
  C9 (as the claim states it, refuted). \<open>normalize_text\<close> has no step that collapses
  whitespace: the two spaces of \<open>"a  b"\<close> are both in the output.
\<close>

theorem normalize_text_keeps_whitespace_run:
  "normalize_text latin1 (u ''a  b'') = u ''a  b'' \<and>
   has_whitespace_run (normalize_text latin1 (u ''a  b''))"
  by (simp add: latin1_eval)

text \<open>
  C9 (amended). \<open>normalize_text\<close> neither removes nor merges whitespace: the whitespace
  characters of its output are, in order, all the whitespace characters of the
  lower-cased text from which the nonspacing marks were dropped.
\<close>

theorem normalize_text_whitespace_preserved:
  "filter py_isspace (normalize_text L x) =
   filter py_isspace (str_lower L (filter (\<lambda>c. \<not> is_Mn L c) (nfd L x)))"
proof -
  have "\<And>s. filter py_isspace (filter normalized_char s) = filter py_isspace s"
    by (induct_tac s) (auto simp: normalized_char_def)
  then show ?thesis by (simp add: normalize_text_def)
qed

section \<open>Properties of the sentiment analyzer and of the urgency detection\<close>

lemma u_eq_iff: "u s = u t \<longleftrightarrow> s = t"
  by (simp add: u_def inj_map_eq_map inj_on_def)

lemma analyze_sentiment_long:
  "text \<noteq> [] \<Longrightarrow> 3 \<le> length (py_strip text) \<Longrightarrow>
   analyze_sentiment L N text =
     (let lowered = str_lower L (clean_text text);
          polarity = fst (textblob_sentiment N (clean_text text));
          subjectivity = snd (textblob_sentiment N (clean_text text));
          adjusted = adjust_sentiment (check_emergency_level lowered) lowered
                       (if 1 / 10 < polarity then u ''positive''
                        else if polarity < - (1 / 10) then u ''negative'' else u ''neutral'')
                       (min (\<bar>polarity\<bar> + subjectivity) 1)
      in [(u ''sentiment'', PyStr (fst adjusted)),
          (u ''polarity'', PyNum (py_round3 polarity)),
          (u ''subjectivity'', PyNum (py_round3 subjectivity)),
          (u ''confidence'', PyNum (py_round3 (snd adjusted))),
          (u ''language'', PyStr (detect_language N (clean_text text))),
          (u ''emergency_level'', PyStr (check_emergency_level lowered)),
          (u ''keywords_found'', PyList (find_keywords lowered))])"
  by (simp add: analyze_sentiment_def Let_def)

lemma ta_strip: "py_strip (u ''terrible agora'') = u ''terrible agora''"
  by (simp add: py_strip_def u_def py_isspace_def)
lemma ta_clean: "clean_text (u ''terrible agora'') = u ''terrible agora''"
  by (simp add: clean_text_def py_strip_def url_match_def url_char_def u_def py_isspace_def)
lemma ta_lower: "str_lower latin1 (u ''terrible agora'') = u ''terrible agora''"
  by (simp add: latin1_def latin1_lower_def u_def)
lemma ta_count: "emergency_count (u ''terrible agora'') = 1"
  by (simp add: emergency_count_def emergency_keywords_def u_def sublist_code)
lemma ta_found: "find_keywords (u ''terrible agora'') = [PyList [PyStr (u ''emergency''), PyStr (u ''agora'')]]"
  by (simp add: find_keywords_def emergency_keywords_def positive_keywords_def negative_keywords_def u_def sublist_code)
lemma ta_pos: "\<not> list_ex (\<lambda>keyword. sublist keyword (u ''terrible agora'')) positive_keywords"
  by (simp add: positive_keywords_def u_def sublist_code)
lemma ta_neg: "\<not> list_ex (\<lambda>keyword. sublist keyword (u ''terrible agora'')) negative_keywords"
  by (simp add: negative_keywords_def u_def sublist_code)
lemma round3_m1: "py_round3 (- 1) = - 1" "py_round3 1 = 1"
  by (simp_all add: py_round3_def round_half_even_def Let_def)
lemma ta_len: "u ''terrible agora'' \<noteq> []" "3 \<le> length (py_strip (u ''terrible agora''))"
  by (simp_all add: ta_strip) (simp_all add: u_def)

lemma ta_analysis:
  "analyze_sentiment latin1 nlp_negative (u ''terrible agora'') =
     [(u ''sentiment'', PyStr (u ''negative'')),
      (u ''polarity'', PyNum (- 1)),
      (u ''subjectivity'', PyNum 1),
      (u ''confidence'', PyNum 1),
      (u ''language'', PyStr (u ''en'')),
      (u ''emergency_level'', PyStr (u ''medium'')),
      (u ''keywords_found'', PyList [PyList [PyStr (u ''emergency''), PyStr (u ''agora'')]])]"
  apply (simp only: analyze_sentiment_long [OF ta_len] ta_clean ta_lower Let_def)
  apply (simp add: check_emergency_level_def ta_count ta_found adjust_sentiment_def ta_pos ta_neg nlp_negative_def round3_m1 detect_language_def)
  apply (simp add: u_def)
  done


text \<open>
  C1 (the code at the failing input). The message \<open>"terrible agora"\<close> has polarity \<open>-1\<close>
  and the analyzer finds the emergency keyword \<open>agora\<close> in it; no keyword of the urgency
  lists occurs, so the keyword pass gives \<open>baixa\<close>. The priority handed to the CRM is
  the middle one (\<open>m\<close>, U+00E9, \<open>dia\<close>), not \<open>alta\<close>: the analyzer's result has no key \<open>emergency_keywords\<close>, so the
  forcing branch is never taken.
\<close>

theorem sentiment_override_not_forced:
  "dict_get (analyze_sentiment latin1 nlp_negative (u ''terrible agora'')) (u ''polarity'') PyNone
     = PyNum (- 1) \<and>
   dict_get (analyze_sentiment latin1 nlp_negative (u ''terrible agora'')) (u ''keywords_found'') PyNone
     = PyList [PyList [PyStr (u ''emergency''), PyStr (u ''agora'')]] \<and>
   urgency_priority latin1 (u ''terrible agora'') None = Some (u ''baixa'') \<and>
   map_option lead_urgency
     (detect_urgency_and_create_ticket latin1 (u ''terrible agora'') None
        (Some (analyze_sentiment latin1 nlp_negative (u ''terrible agora''))))
     = Some (u ''m'' @ [233] @ u ''dia'')"
proof -
  have hi: "\<not> list_ex (\<lambda>keyword. sublist keyword (u ''terrible agora'')) high_priority_keywords"
    by (simp add: high_priority_keywords_def u_def sublist_code)
  have me: "\<not> list_ex (\<lambda>keyword. sublist keyword (u ''terrible agora'')) medium_priority_keywords"
    by (simp add: medium_priority_keywords_def u_def sublist_code)
  have raw: "urgency_priority latin1 (u ''terrible agora'') None = Some (u ''baixa'')"
    by (simp add: urgency_priority_def Let_def ta_lower hi me)
  have pol: "dict_get (analyze_sentiment latin1 nlp_negative (u ''terrible agora'')) (u ''polarity'') d
     = PyNum (- 1)" for d
    by (simp add: ta_analysis dict_get_def u_eq_iff)
  have kws: "dict_get (analyze_sentiment latin1 nlp_negative (u ''terrible agora'')) (u ''keywords_found'') d
     = PyList [PyList [PyStr (u ''emergency''), PyStr (u ''agora'')]]" for d
    by (simp add: ta_analysis dict_get_def u_eq_iff)
  have emk: "dict_get (analyze_sentiment latin1 nlp_negative (u ''terrible agora'')) (u ''emergency_keywords'') d
     = d" for d
    by (simp add: ta_analysis dict_get_def u_eq_iff)
  have ne: "analyze_sentiment latin1 nlp_negative (u ''terrible agora'') \<noteq> []"
    by (simp add: ta_analysis)
  have adj: "urgency_priority latin1 (u ''terrible agora'')
               (Some (analyze_sentiment latin1 nlp_negative (u ''terrible agora'')))
             = Some (u ''m'' @ [233] @ u ''dia'')"
    by (simp add: urgency_priority_def Let_def ta_lower hi me pol emk ne)
  show ?thesis
    by (simp add: detect_urgency_and_create_ticket_def raw adj pol kws)
qed

section \<open>Properties of the classifier and of the response resolver\<close>

lemma contains_keywords_mono:
  "set ks \<subseteq> set ks' \<Longrightarrow> contains_keywords L text ks \<Longrightarrow> contains_keywords L text ks'"
  by (auto simp: contains_keywords_def list_ex_iff)

lemma contains_keywords_append:
  "contains_keywords L text (ks @ ks') \<longleftrightarrow> contains_keywords L text ks \<or> contains_keywords L text ks'"
  by (auto simp: contains_keywords_def list_ex_iff)

lemma contains_keywords_map:
  "contains_keywords L text ks \<longleftrightarrow>
   list_ex (\<lambda>k. sublist k (normalize_text L text)) (map (normalize_text L) ks)"
  by (simp add: contains_keywords_def list_ex_iff)

lemma tratamento_keywords_extend: "take 27 tratamento_keywords = fallback_tratamento_keywords"
  by (simp add: tratamento_keywords_def fallback_tratamento_keywords_def)

lemma dependencia_keywords_same: "dependencia_keywords = fallback_dependencia_keywords"
  by (simp add: dependencia_keywords_def fallback_dependencia_keywords_def)

lemma fallback_treatment_subset:
  "set (fallback_tratamento_keywords @ fallback_dependencia_keywords)
     \<subseteq> set (tratamento_keywords @ dependencia_keywords)"
proof -
  have "set (take 27 tratamento_keywords) \<subseteq> set tratamento_keywords" by (rule set_take_subset)
  then show ?thesis by (auto simp: tratamento_keywords_extend dependencia_keywords_same)
qed

lemma provider_chain_calls_nonempty:
  "\<exists>rest. snd (provider_chain E h m) = OpenAI # rest \<or> snd (provider_chain E h m) = HuggingFace # rest"
  by (simp add: provider_chain_def Let_def)

lemma get_response_calls:
  "res_calls (get_response L N E h m c language) =
     (if contains_keywords L m (tratamento_keywords @ dependencia_keywords) \<or> AI_PROVIDER E \<noteq> u ''fallback''
      then snd (provider_chain E
                  (h @ [\<lparr> msg_role = u ''user'', msg_content = PyStr m,
                           msg_sentiment = Some (analyze_sentiment L N m) \<rparr>]) m)
      else [])"
  by (simp add: get_response_def Let_def split: option.splits)


lemma get_response_response:
  "res_response (get_response L N E h m c language) =
     (let attempt =
            (if contains_keywords L m (tratamento_keywords @ dependencia_keywords) \<or>
                AI_PROVIDER E \<noteq> u ''fallback''
             then provider_chain E
                    (h @ [\<lparr> msg_role = u ''user'', msg_content = PyStr m,
                             msg_sentiment = Some (analyze_sentiment L N m) \<rparr>]) m
             else (PyNone, []));
          response1 =
            (if \<not> py_truthy (fst attempt) then
               (case get_response_fallback L m of
                  None \<Rightarrow> PyStr template_treatments
                | Some template \<Rightarrow>
                    if template = [] then PyStr template_treatments else PyStr template)
             else fst attempt)
      in if language \<noteq> u ''pt'' then translate_response E response1 language else Some response1)"
  by (simp add: get_response_def Let_def split: option.splits)

lemma templates_nonempty:
  "template_identificacao \<noteq> []" "template_internacao \<noteq> []" "template_convenio \<noteq> []"
  "template_emergencia \<noteq> []" "template_contato \<noteq> []" "template_greeting \<noteq> []"
  "template_treatments \<noteq> []"
  by (simp_all add: template_identificacao_def template_internacao_def template_convenio_def
        template_emergencia_def template_contato_def template_greeting_def template_treatments_def u_def)

lemma get_response_fallback_nonempty: "get_response_fallback L m = Some t \<Longrightarrow> t \<noteq> []"
  by (auto simp: get_response_fallback_def templates_nonempty split: if_splits)

lemma latin1_normalize_Cons:
  "normalize_text latin1 (c # s) = normalize_text latin1 [c] @ normalize_text latin1 s"
  by (simp add: normalize_text_def latin1_def)

lemma latin1_normalize_Nil: "normalize_text latin1 [] = []"
  by (simp add: normalize_text_def latin1_def)

text \<open>The normal form of each lower-case letter, digit, space and Latin-1 letter.\<close>

lemma latin1_normalize_singletons:
  "normalize_text latin1 [97] = [97]" "normalize_text latin1 [98] = [98]"
  "normalize_text latin1 [99] = [99]" "normalize_text latin1 [100] = [100]"
  "normalize_text latin1 [101] = [101]" "normalize_text latin1 [102] = [102]"
  "normalize_text latin1 [103] = [103]" "normalize_text latin1 [104] = [104]"
  "normalize_text latin1 [105] = [105]" "normalize_text latin1 [106] = [106]"
  "normalize_text latin1 [107] = [107]" "normalize_text latin1 [108] = [108]"
  "normalize_text latin1 [109] = [109]" "normalize_text latin1 [110] = [110]"
  "normalize_text latin1 [111] = [111]" "normalize_text latin1 [112] = [112]"
  "normalize_text latin1 [113] = [113]" "normalize_text latin1 [114] = [114]"
  "normalize_text latin1 [115] = [115]" "normalize_text latin1 [116] = [116]"
  "normalize_text latin1 [117] = [117]" "normalize_text latin1 [118] = [118]"
  "normalize_text latin1 [119] = [119]" "normalize_text latin1 [120] = [120]"
  "normalize_text latin1 [121] = [121]" "normalize_text latin1 [122] = [122]"
  "normalize_text latin1 [32] = [32]" "normalize_text latin1 [48] = [48]"
  "normalize_text latin1 [49] = [49]" "normalize_text latin1 [50] = [50]"
  "normalize_text latin1 [51] = [51]" "normalize_text latin1 [52] = [52]"
  "normalize_text latin1 [53] = [53]" "normalize_text latin1 [54] = [54]"
  "normalize_text latin1 [55] = [55]" "normalize_text latin1 [56] = [56]"
  "normalize_text latin1 [57] = [57]" "normalize_text latin1 [192] = [97]"
  "normalize_text latin1 [193] = [97]" "normalize_text latin1 [194] = [97]"
  "normalize_text latin1 [195] = [97]" "normalize_text latin1 [196] = [97]"
  "normalize_text latin1 [197] = [97]" "normalize_text latin1 [198] = []"
  "normalize_text latin1 [199] = [99]" "normalize_text latin1 [200] = [101]"
  "normalize_text latin1 [201] = [101]" "normalize_text latin1 [202] = [101]"
  "normalize_text latin1 [203] = [101]" "normalize_text latin1 [204] = [105]"
  "normalize_text latin1 [205] = [105]" "normalize_text latin1 [206] = [105]"
  "normalize_text latin1 [207] = [105]" "normalize_text latin1 [208] = []"
  "normalize_text latin1 [209] = [110]" "normalize_text latin1 [210] = [111]"
  "normalize_text latin1 [211] = [111]" "normalize_text latin1 [212] = [111]"
  "normalize_text latin1 [213] = [111]" "normalize_text latin1 [214] = [111]"
  "normalize_text latin1 [215] = []" "normalize_text latin1 [216] = []"
  "normalize_text latin1 [217] = [117]" "normalize_text latin1 [218] = [117]"
  "normalize_text latin1 [219] = [117]" "normalize_text latin1 [220] = [117]"
  "normalize_text latin1 [221] = [121]" "normalize_text latin1 [222] = []"
  "normalize_text latin1 [223] = []" "normalize_text latin1 [224] = [97]"
  "normalize_text latin1 [225] = [97]" "normalize_text latin1 [226] = [97]"
  "normalize_text latin1 [227] = [97]" "normalize_text latin1 [228] = [97]"
  "normalize_text latin1 [229] = [97]" "normalize_text latin1 [230] = []"
  "normalize_text latin1 [231] = [99]" "normalize_text latin1 [232] = [101]"
  "normalize_text latin1 [233] = [101]" "normalize_text latin1 [234] = [101]"
  "normalize_text latin1 [235] = [101]" "normalize_text latin1 [236] = [105]"
  "normalize_text latin1 [237] = [105]" "normalize_text latin1 [238] = [105]"
  "normalize_text latin1 [239] = [105]" "normalize_text latin1 [240] = []"
  "normalize_text latin1 [241] = [110]" "normalize_text latin1 [242] = [111]"
  "normalize_text latin1 [243] = [111]" "normalize_text latin1 [244] = [111]"
  "normalize_text latin1 [245] = [111]" "normalize_text latin1 [246] = [111]"
  "normalize_text latin1 [247] = []" "normalize_text latin1 [248] = []"
  "normalize_text latin1 [249] = [117]" "normalize_text latin1 [250] = [117]"
  "normalize_text latin1 [251] = [117]" "normalize_text latin1 [252] = [117]"
  "normalize_text latin1 [253] = [121]" "normalize_text latin1 [254] = []"
  "normalize_text latin1 [255] = [121]"
  by (simp_all add: latin1_eval)

lemma latin1_normalize_chars:
  "normalize_text latin1 (97 # s) = 97 # normalize_text latin1 s"
  "normalize_text latin1 (98 # s) = 98 # normalize_text latin1 s"
  "normalize_text latin1 (99 # s) = 99 # normalize_text latin1 s"
  "normalize_text latin1 (100 # s) = 100 # normalize_text latin1 s"
  "normalize_text latin1 (101 # s) = 101 # normalize_text latin1 s"
  "normalize_text latin1 (102 # s) = 102 # normalize_text latin1 s"
  "normalize_text latin1 (103 # s) = 103 # normalize_text latin1 s"
  "normalize_text latin1 (104 # s) = 104 # normalize_text latin1 s"
  "normalize_text latin1 (105 # s) = 105 # normalize_text latin1 s"
  "normalize_text latin1 (106 # s) = 106 # normalize_text latin1 s"
  "normalize_text latin1 (107 # s) = 107 # normalize_text latin1 s"
  "normalize_text latin1 (108 # s) = 108 # normalize_text latin1 s"
  "normalize_text latin1 (109 # s) = 109 # normalize_text latin1 s"
  "normalize_text latin1 (110 # s) = 110 # normalize_text latin1 s"
  "normalize_text latin1 (111 # s) = 111 # normalize_text latin1 s"
  "normalize_text latin1 (112 # s) = 112 # normalize_text latin1 s"
  "normalize_text latin1 (113 # s) = 113 # normalize_text latin1 s"
  "normalize_text latin1 (114 # s) = 114 # normalize_text latin1 s"
  "normalize_text latin1 (115 # s) = 115 # normalize_text latin1 s"
  "normalize_text latin1 (116 # s) = 116 # normalize_text latin1 s"
  "normalize_text latin1 (117 # s) = 117 # normalize_text latin1 s"
  "normalize_text latin1 (118 # s) = 118 # normalize_text latin1 s"
  "normalize_text latin1 (119 # s) = 119 # normalize_text latin1 s"
  "normalize_text latin1 (120 # s) = 120 # normalize_text latin1 s"
  "normalize_text latin1 (121 # s) = 121 # normalize_text latin1 s"
  "normalize_text latin1 (122 # s) = 122 # normalize_text latin1 s"
  "normalize_text latin1 (32 # s) = 32 # normalize_text latin1 s"
  "normalize_text latin1 (48 # s) = 48 # normalize_text latin1 s"
  "normalize_text latin1 (49 # s) = 49 # normalize_text latin1 s"
  "normalize_text latin1 (50 # s) = 50 # normalize_text latin1 s"
  "normalize_text latin1 (51 # s) = 51 # normalize_text latin1 s"
  "normalize_text latin1 (52 # s) = 52 # normalize_text latin1 s"
  "normalize_text latin1 (53 # s) = 53 # normalize_text latin1 s"
  "normalize_text latin1 (54 # s) = 54 # normalize_text latin1 s"
  "normalize_text latin1 (55 # s) = 55 # normalize_text latin1 s"
  "normalize_text latin1 (56 # s) = 56 # normalize_text latin1 s"
  "normalize_text latin1 (57 # s) = 57 # normalize_text latin1 s"
  "normalize_text latin1 (192 # s) = 97 # normalize_text latin1 s"
  "normalize_text latin1 (193 # s) = 97 # normalize_text latin1 s"
  "normalize_text latin1 (194 # s) = 97 # normalize_text latin1 s"
  "normalize_text latin1 (195 # s) = 97 # normalize_text latin1 s"
  "normalize_text latin1 (196 # s) = 97 # normalize_text latin1 s"
  "normalize_text latin1 (197 # s) = 97 # normalize_text latin1 s"
  "normalize_text latin1 (198 # s) = normalize_text latin1 s"
  "normalize_text latin1 (199 # s) = 99 # normalize_text latin1 s"
  "normalize_text latin1 (200 # s) = 101 # normalize_text latin1 s"
  "normalize_text latin1 (201 # s) = 101 # normalize_text latin1 s"
  "normalize_text latin1 (202 # s) = 101 # normalize_text latin1 s"
  "normalize_text latin1 (203 # s) = 101 # normalize_text latin1 s"
  "normalize_text latin1 (204 # s) = 105 # normalize_text latin1 s"
  "normalize_text latin1 (205 # s) = 105 # normalize_text latin1 s"
  "normalize_text latin1 (206 # s) = 105 # normalize_text latin1 s"
  "normalize_text latin1 (207 # s) = 105 # normalize_text latin1 s"
  "normalize_text latin1 (208 # s) = normalize_text latin1 s"
  "normalize_text latin1 (209 # s) = 110 # normalize_text latin1 s"
  "normalize_text latin1 (210 # s) = 111 # normalize_text latin1 s"
  "normalize_text latin1 (211 # s) = 111 # normalize_text latin1 s"
  "normalize_text latin1 (212 # s) = 111 # normalize_text latin1 s"
  "normalize_text latin1 (213 # s) = 111 # normalize_text latin1 s"
  "normalize_text latin1 (214 # s) = 111 # normalize_text latin1 s"
  "normalize_text latin1 (215 # s) = normalize_text latin1 s"
  "normalize_text latin1 (216 # s) = normalize_text latin1 s"
  "normalize_text latin1 (217 # s) = 117 # normalize_text latin1 s"
  "normalize_text latin1 (218 # s) = 117 # normalize_text latin1 s"
  "normalize_text latin1 (219 # s) = 117 # normalize_text latin1 s"
  "normalize_text latin1 (220 # s) = 117 # normalize_text latin1 s"
  "normalize_text latin1 (221 # s) = 121 # normalize_text latin1 s"
  "normalize_text latin1 (222 # s) = normalize_text latin1 s"
  "normalize_text latin1 (223 # s) = normalize_text latin1 s"
  "normalize_text latin1 (224 # s) = 97 # normalize_text latin1 s"
  "normalize_text latin1 (225 # s) = 97 # normalize_text latin1 s"
  "normalize_text latin1 (226 # s) = 97 # normalize_text latin1 s"
  "normalize_text latin1 (227 # s) = 97 # normalize_text latin1 s"
  "normalize_text latin1 (228 # s) = 97 # normalize_text latin1 s"
  "normalize_text latin1 (229 # s) = 97 # normalize_text latin1 s"
  "normalize_text latin1 (230 # s) = normalize_text latin1 s"
  "normalize_text latin1 (231 # s) = 99 # normalize_text latin1 s"
  "normalize_text latin1 (232 # s) = 101 # normalize_text latin1 s"
  "normalize_text latin1 (233 # s) = 101 # normalize_text latin1 s"
  "normalize_text latin1 (234 # s) = 101 # normalize_text latin1 s"
  "normalize_text latin1 (235 # s) = 101 # normalize_text latin1 s"
  "normalize_text latin1 (236 # s) = 105 # normalize_text latin1 s"
  "normalize_text latin1 (237 # s) = 105 # normalize_text latin1 s"
  "normalize_text latin1 (238 # s) = 105 # normalize_text latin1 s"
  "normalize_text latin1 (239 # s) = 105 # normalize_text latin1 s"
  "normalize_text latin1 (240 # s) = normalize_text latin1 s"
  "normalize_text latin1 (241 # s) = 110 # normalize_text latin1 s"
  "normalize_text latin1 (242 # s) = 111 # normalize_text latin1 s"
  "normalize_text latin1 (243 # s) = 111 # normalize_text latin1 s"
  "normalize_text latin1 (244 # s) = 111 # normalize_text latin1 s"
  "normalize_text latin1 (245 # s) = 111 # normalize_text latin1 s"
  "normalize_text latin1 (246 # s) = 111 # normalize_text latin1 s"
  "normalize_text latin1 (247 # s) = normalize_text latin1 s"
  "normalize_text latin1 (248 # s) = normalize_text latin1 s"
  "normalize_text latin1 (249 # s) = 117 # normalize_text latin1 s"
  "normalize_text latin1 (250 # s) = 117 # normalize_text latin1 s"
  "normalize_text latin1 (251 # s) = 117 # normalize_text latin1 s"
  "normalize_text latin1 (252 # s) = 117 # normalize_text latin1 s"
  "normalize_text latin1 (253 # s) = 121 # normalize_text latin1 s"
  "normalize_text latin1 (254 # s) = normalize_text latin1 s"
  "normalize_text latin1 (255 # s) = 121 # normalize_text latin1 s"
  by (subst latin1_normalize_Cons, simp only: latin1_normalize_singletons append.simps)+

lemma normalized_fallback_identificacao_keywords:
  "map (normalize_text latin1) fallback_identificacao_keywords =
     [u ''identificar'', u ''identifico'', u ''reconhecer'', u ''perceber'', u ''notar'',
      u ''descobrir'', u ''sinais'', u ''sintomas'', u ''comportamento'', u ''mudancas'',
      u ''mudancas'', u ''indicios'', u ''indicios'', u ''como saber'', u ''como sei'',
      u ''como descobrir'', u ''como perceber'', u ''como identificar'', u ''pessoa viciada'',
      u ''alguem viciado'', u ''alguem viciado'', u ''familiar viciado'',
      u ''caracteristicas'', u ''caracteristicas'', u ''manifestacoes'', u ''manifestacoes'',
      u ''evidencias'', u ''evidencias'', u ''pistas'', u ''alertas'', u ''avisos'']"
  by (simp add: fallback_identificacao_keywords_def u_def, simp only: latin1_normalize_chars latin1_normalize_Nil)

lemma normalized_tratamento_keywords:
  "map (normalize_text latin1) tratamento_keywords =
     [u ''tratamento'', u ''terapia'', u ''ajuda'', u ''tratar'', u ''curar'', u ''cura'',
      u ''recuperacao'', u ''recuperacao'', u ''reabilitacao'', u ''reabilitacao'',
      u ''dependencia'', u ''dependencia'', u ''vicio'', u ''vicio'', u ''drogas'',
      u ''alcool'', u ''alcool'', u ''medicamento'', u ''remedio'', u ''remedio'',
      u ''psicologia'', u ''psiquiatria'', u ''medico'', u ''medico'', u ''doutor'',
      u ''doutora'', u ''terapeuta'', u ''12 passos'', u ''doze passos'', u ''programa'',
      u ''como funciona'', u ''funciona'', u ''funcionamento'', u ''desintoxicacao'',
      u ''desintoxicacao'', u ''tcc'', u ''cognitivo'', u ''comportamental'', u ''individual'',
      u ''grupo'', u ''familiar'', u ''atividades'', u ''psiquiatrico'', u ''psiquiatrico'',
      u ''apoio'', u ''grupos'', u ''mais sobre'', u ''fale mais'', u ''explique'',
      u ''detalhe'', u ''detalhes'']"
  by (simp add: tratamento_keywords_def u_def, simp only: latin1_normalize_chars latin1_normalize_Nil)

lemma normalized_dependencia_keywords:
  "map (normalize_text latin1) dependencia_keywords =
     [u ''dependente'', u ''viciado'', u ''adicto'', u ''usuario'', u ''usuario'',
      u ''consumidor'', u ''crack'', u ''cocaina'', u ''cocaina'', u ''maconha'',
      u ''cannabis'', u ''heroina'', u ''heroina'', u ''ecstasy'', u ''lsd'', u ''anfetamina'',
      u ''metanfetamina'', u ''opioides'', u ''morfina'', u ''codeina'', u ''codeina'',
      u ''tramadol'', u ''rivotril'', u ''clonazepam'', u ''alprazolam'']"
  by (simp add: dependencia_keywords_def u_def, simp only: latin1_normalize_chars latin1_normalize_Nil)

text \<open>
  C7. A message with a treatment or dependency keyword and no identification keyword is
  classified as \<open>None\<close>, and \<open>get_response\<close> then calls the provider chain: the list of
  backends it called is not empty and starts with OpenAI or Hugging Face.
\<close>

theorem treatment_keyword_defers_to_providers:
  assumes "contains_keywords L user_message
             (fallback_tratamento_keywords @ fallback_dependencia_keywords)"
      and "\<not> contains_keywords L user_message fallback_identificacao_keywords"
  shows "get_response_fallback L user_message = None \<and>
         (\<exists>rest. res_calls (get_response L N E history user_message conversation_id language)
                   = OpenAI # rest \<or>
                 res_calls (get_response L N E history user_message conversation_id language)
                   = HuggingFace # rest)"
proof -
  have "contains_keywords L user_message (tratamento_keywords @ dependencia_keywords)"
    using assms(1) fallback_treatment_subset by (rule contains_keywords_mono [rotated])
  then show ?thesis
    using assms provider_chain_calls_nonempty
    by (simp add: get_response_fallback_def get_response_calls)
qed

lemma tratamento_message:
  "normalize_text latin1 (u ''quero saber sobre tratamento'') = u ''quero saber sobre tratamento''"
  by (simp add: u_def, simp only: latin1_normalize_chars latin1_normalize_Nil)

lemma tratamento_message_classes:
  "contains_keywords latin1 (u ''quero saber sobre tratamento'')
     (fallback_tratamento_keywords @ fallback_dependencia_keywords)"
  "\<not> contains_keywords latin1 (u ''quero saber sobre tratamento'') fallback_identificacao_keywords"
proof -
  have "contains_keywords latin1 (u ''quero saber sobre tratamento'') [u ''tratamento'']"
    by (simp add: contains_keywords_def u_def, simp only: latin1_normalize_chars latin1_normalize_Nil,
        simp add: sublist_code)
  then show "contains_keywords latin1 (u ''quero saber sobre tratamento'')
     (fallback_tratamento_keywords @ fallback_dependencia_keywords)"
    by (rule contains_keywords_mono [rotated]) (simp add: fallback_tratamento_keywords_def)
  show "\<not> contains_keywords latin1 (u ''quero saber sobre tratamento'') fallback_identificacao_keywords"
    unfolding contains_keywords_map tratamento_message normalized_fallback_identificacao_keywords
    by (simp add: u_def sublist_code)
qed

theorem treatment_keyword_defers_to_providers_witness:
  "contains_keywords latin1 (u ''quero saber sobre tratamento'')
     (fallback_tratamento_keywords @ fallback_dependencia_keywords) \<and>
   \<not> contains_keywords latin1 (u ''quero saber sobre tratamento'') fallback_identificacao_keywords \<and>
   get_response_fallback latin1 (u ''quero saber sobre tratamento'') = None \<and>
   res_calls (get_response latin1 nlp_neutral env_offline [] (u ''quero saber sobre tratamento'')
                None (u ''pt'')) = [HuggingFace, Gemini]"
proof -
  have hf: "get_response_huggingface env_offline m = PyNone" for m
    by (simp add: get_response_huggingface_def env_offline_def)
  have ge: "get_response_gemini env_offline m = PyNone" for m
    by (simp add: get_response_gemini_def env_offline_def)
  have mode: "AI_PROVIDER env_offline = u ''fallback''" "\<not> client env_offline"
    by (simp_all add: env_offline_def)
  have pc: "snd (provider_chain env_offline h m) = [HuggingFace, Gemini]" for h m
    by (simp add: provider_chain_def Let_def hf ge mode)
  have ext: "contains_keywords latin1 (u ''quero saber sobre tratamento'')
               (tratamento_keywords @ dependencia_keywords)"
    using tratamento_message_classes(1) fallback_treatment_subset
    by (rule contains_keywords_mono [rotated])
  have calls: "res_calls (get_response latin1 nlp_neutral env_offline [] (u ''quero saber sobre tratamento'')
                None (u ''pt'')) = [HuggingFace, Gemini]"
    by (simp only: get_response_calls ext pc simp_thms if_True)
  have "get_response_fallback latin1 (u ''quero saber sobre tratamento'') = None"
    using treatment_keyword_defers_to_providers [OF tratamento_message_classes,
        of nlp_neutral env_offline "[]" None "u ''pt''"]
    by (rule conjunct1)
  then show ?thesis
    using tratamento_message_classes calls by (intro conjI)
qed

end
